theory Spec2Isabelle
  imports Complex_Main "HOL-Library.AList"
begin

section \<open>Two readings of the source\<close>

text \<open>
  The dashboard is TypeScript; every amount and every ratio has the type \<open>number\<close>.
  The functions of the settlement page are embedded twice.

  The first embedding (suffix \<open>_js\<close>) follows the code as it runs: a number is an
  IEEE-754 double, or \<open>NaN\<close> or an infinity; a field of an object parsed from JSON may
  be absent or \<open>null\<close>; a method call on an absent array throws \<open>TypeError\<close>. Every
  statement about precision, rounding, or what happens to data that does not fit the
  declared types is made on this embedding.

  The second embedding is the reading under the declared types: every field is present
  and numbers are exact reals. It is used for statements about which checks run, which
  ratio is applied and which records are touched.

  \<open>Math.round(x)\<close> is the integer nearest to \<open>x\<close>, a tie going towards plus infinity.
  Round-half-to-even, the rounding the specification names and the one IEEE-754 uses
  for arithmetic results, sends a value halfway between two integers to the even one.
\<close>

definition Math_round :: "real \<Rightarrow> int" where
  "Math_round x = \<lfloor>x + 1 / 2\<rfloor>"

definition round_half_even :: "real \<Rightarrow> int" where
  "round_half_even x =
     (if x - of_int \<lfloor>x\<rfloor> = 1 / 2
      then (if even \<lfloor>x\<rfloor> then \<lfloor>x\<rfloor> else \<lfloor>x\<rfloor> + 1)
      else \<lfloor>x + 1 / 2\<rfloor>)"

section \<open>Labels shared by both readings\<close>

text \<open>
  The \<open>field\<close> of an issue is a Korean label, one per check; the label of the per-course
  check embeds the course name between brackets. Each distinct label is a constructor.
  The edit handler takes the name of the edited field, \<open>"revenue"\<close> or \<open>"ad_cost"\<close>.
\<close>

datatype issue_field =
    RevenueField
  | AdCostField
  | ContributionField
  | ContributionFormulaField
  | SettlementAmountField
  | CourseContributionField string

datatype edit_field = Revenue | AdCost

section \<open>JavaScript numbers\<close>

text \<open>
  A Number is a finite double, an infinity or \<open>NaN\<close>; \<open>Fin x\<close> is only ever built from
  a real \<open>x\<close> that is a double. Negative zero is identified with zero: the code compares
  and adds, and never divides.

  \<open>fl\<close> rounds a real to the nearest double, ties to even: with \<open>e\<close> the binary exponent
  of \<open>x\<close> (not below -1022, where the subnormal numbers begin) the doubles near \<open>x\<close> are
  the multiples of \<open>2^(e - 52)\<close>. The exponent is found by halving or doubling; the
  fuel covers the whole range of the format. \<open>rnd\<close> adds the overflow to an infinity.
\<close>

datatype num = Fin real | PInf | NInf | NaN

definition pow2 :: "int \<Rightarrow> real" where
  "pow2 e = (if 0 \<le> e then 2 ^ nat e else 1 / 2 ^ nat (- e))"

fun expo_up :: "nat \<Rightarrow> real \<Rightarrow> int \<Rightarrow> int" where
  "expo_up 0 x e = e"
| "expo_up (Suc n) x e = (if x < 2 then e else expo_up n (x / 2) (e + 1))"

fun expo_down :: "nat \<Rightarrow> real \<Rightarrow> int \<Rightarrow> int" where
  "expo_down 0 x e = e"
| "expo_down (Suc n) x e = (if 1 \<le> x then e else expo_down n (x * 2) (e - 1))"

definition expo :: "real \<Rightarrow> int" where
  "expo x = (if x = 0 then 0
             else if 1 \<le> \<bar>x\<bar> then expo_up 1024 \<bar>x\<bar> 0 else expo_down 1022 \<bar>x\<bar> 0)"

definition fl :: "real \<Rightarrow> real" where
  "fl x = (if x = 0 then 0
           else let q = pow2 (expo x - 52) in of_int (round_half_even (x / q)) * q)"

definition rnd :: "real \<Rightarrow> num" where
  "rnd x = (let y = fl x
            in if 1024 \<le> expo y then (if 0 < y then PInf else NInf) else Fin y)"

definition js_neg :: "num \<Rightarrow> num" where
  "js_neg a = (case a of Fin x \<Rightarrow> Fin (- x) | PInf \<Rightarrow> NInf | NInf \<Rightarrow> PInf | NaN \<Rightarrow> NaN)"

definition js_add :: "num \<Rightarrow> num \<Rightarrow> num" where
  "js_add a b =
     (case a of
        NaN \<Rightarrow> NaN
      | Fin x \<Rightarrow> (case b of Fin y \<Rightarrow> rnd (x + y) | _ \<Rightarrow> b)
      | PInf \<Rightarrow> (case b of NaN \<Rightarrow> NaN | NInf \<Rightarrow> NaN | _ \<Rightarrow> PInf)
      | NInf \<Rightarrow> (case b of NaN \<Rightarrow> NaN | PInf \<Rightarrow> NaN | _ \<Rightarrow> NInf))"

definition js_sub :: "num \<Rightarrow> num \<Rightarrow> num" where
  "js_sub a b = js_add a (js_neg b)"

definition is_zero :: "num \<Rightarrow> bool" where
  "is_zero a = (case a of Fin x \<Rightarrow> x = 0 | _ \<Rightarrow> False)"

definition positive :: "num \<Rightarrow> bool" where
  "positive a = (case a of Fin x \<Rightarrow> 0 < x | PInf \<Rightarrow> True | _ \<Rightarrow> False)"

definition js_mul :: "num \<Rightarrow> num \<Rightarrow> num" where
  "js_mul a b =
     (case (a, b) of
        (Fin x, Fin y) \<Rightarrow> rnd (x * y)
      | (NaN, _) \<Rightarrow> NaN
      | (_, NaN) \<Rightarrow> NaN
      | _ \<Rightarrow> (if is_zero a \<or> is_zero b then NaN
              else if positive a = positive b then PInf else NInf))"

definition Math_abs :: "num \<Rightarrow> num" where
  "Math_abs a = (case a of Fin x \<Rightarrow> Fin \<bar>x\<bar> | NaN \<Rightarrow> NaN | _ \<Rightarrow> PInf)"

definition Math_round_js :: "num \<Rightarrow> num" where
  "Math_round_js a = (case a of Fin x \<Rightarrow> Fin (of_int (Math_round x)) | _ \<Rightarrow> a)"

definition js_gt :: "num \<Rightarrow> num \<Rightarrow> bool" where
  "js_gt a b =
     (case a of
        NaN \<Rightarrow> False
      | Fin x \<Rightarrow> (case b of Fin y \<Rightarrow> y < x | NInf \<Rightarrow> True | _ \<Rightarrow> False)
      | PInf \<Rightarrow> (case b of Fin y \<Rightarrow> True | NInf \<Rightarrow> True | _ \<Rightarrow> False)
      | NInf \<Rightarrow> False)"

text \<open>
  A numeric field of an object parsed from JSON: absent (\<open>undefined\<close>), \<open>null\<close> or a
  number. \<open>ToNumber\<close> is the conversion that arithmetic and comparison apply;
  \<open>nullish v d\<close> is \<open>v ?? d\<close> for a numeric default.
\<close>

datatype jsval = Undefined | Null | Number num

fun ToNumber :: "jsval \<Rightarrow> num" where
  "ToNumber Undefined = NaN"
| "ToNumber Null = Fin 0"
| "ToNumber (Number n) = n"

fun nullish :: "jsval \<Rightarrow> num \<Rightarrow> num" where
  "nullish (Number n) d = n"
| "nullish v d = d"

section \<open>The code as it runs: data\<close>

text \<open>
  The interfaces of \<open>lib/api\<close> with every numeric field read as a JSON value and the
  \<open>courses\<close> array possibly absent. Strings are taken as present. Of \<open>ParseResponse\<close>
  only the fields the loader reads are kept. \<open>section_name\<close> is the field \<open>section\<close>
  (a reserved word here).
\<close>

record CourseSummary_js =
  course_id :: string
  course_name :: string
  revenue :: jsval
  ad_cost :: jsval
  contribution :: jsval
  revenue_share :: jsval
  section_name :: string
  rs_ratio :: jsval

record CompanySettlement_js =
  company_name :: string
  revenue :: jsval
  ad_cost :: jsval
  contribution :: jsval
  revenue_share :: jsval
  settlement_amount :: jsval
  union_payout :: jsval
  union_payout_ratio :: jsval
  courses :: "CourseSummary_js list option"

record ParseResponse_js =
  period :: string
  companies :: "(string \<times> CompanySettlement_js) list"

section \<open>The code as it runs: \<open>validateSettlement\<close>\<close>

text \<open>
  The \<open>message\<close> of an issue is a template literal, fixed for each check, into which the
  code interpolates \<open>formatCurrency\<close> of some values, a rounded percentage or a course
  name; it is kept as the check together with the interpolated arguments, in source
  order. \<open>expected\<close> and \<open>actual\<close> hold what the code stores there, which for a company
  total is the field as it was read.
\<close>

datatype message_arg_js = Currency_js jsval | Percent_js num | CourseName_js string

datatype message_js = Message_js issue_field "message_arg_js list"

record ValidationIssue_js =
  field :: issue_field
  expected :: jsval
  actual :: jsval
  diff :: num
  message :: message_js

datatype js_error = TypeError

definition threshold_js :: num where
  "threshold_js = Fin 2"

definition sumRevenue_js :: "CourseSummary_js list \<Rightarrow> num" where
  "sumRevenue_js cs =
     foldl (\<lambda>acc c. js_add acc (nullish (CourseSummary_js.revenue c) (Fin 0))) (Fin 0) cs"

definition sumAdCost_js :: "CourseSummary_js list \<Rightarrow> num" where
  "sumAdCost_js cs =
     foldl (\<lambda>acc c. js_add acc (nullish (CourseSummary_js.ad_cost c) (Fin 0))) (Fin 0) cs"

definition sumContribution_js :: "CourseSummary_js list \<Rightarrow> num" where
  "sumContribution_js cs =
     foldl (\<lambda>acc c. js_add acc (nullish (CourseSummary_js.contribution c) (Fin 0))) (Fin 0) cs"

definition expectedContribution_js :: "CompanySettlement_js \<Rightarrow> num" where
  "expectedContribution_js s = js_sub (ToNumber (revenue s)) (ToNumber (ad_cost s))"

definition expectedSettlement_js :: "CompanySettlement_js \<Rightarrow> num" where
  "expectedSettlement_js s =
     Math_round_js (js_mul (ToNumber (contribution s)) (ToNumber (union_payout_ratio s)))"

definition cExpected_js :: "CourseSummary_js \<Rightarrow> num" where
  "cExpected_js c =
     js_sub (nullish (CourseSummary_js.revenue c) (Fin 0)) (nullish (CourseSummary_js.ad_cost c) (Fin 0))"

text \<open>The five company-level checks, each pushing at most one issue onto the array.\<close>

definition check_revenue_js ::
  "CompanySettlement_js \<Rightarrow> CourseSummary_js list \<Rightarrow> ValidationIssue_js list \<Rightarrow> ValidationIssue_js list" where
  "check_revenue_js s cs issues =
     (if js_gt (Math_abs (js_sub (sumRevenue_js cs) (ToNumber (revenue s)))) threshold_js
      then issues @ [\<lparr>field = RevenueField,
                      expected = revenue s,
                      actual = Number (sumRevenue_js cs),
                      diff = js_sub (sumRevenue_js cs) (ToNumber (revenue s)),
                      message = Message_js RevenueField
                        [Currency_js (Number (sumRevenue_js cs)), Currency_js (revenue s),
                         Currency_js (Number (Math_abs
                           (js_sub (sumRevenue_js cs) (ToNumber (revenue s)))))]\<rparr>]
      else issues)"

definition check_ad_cost_js ::
  "CompanySettlement_js \<Rightarrow> CourseSummary_js list \<Rightarrow> ValidationIssue_js list \<Rightarrow> ValidationIssue_js list" where
  "check_ad_cost_js s cs issues =
     (if js_gt (Math_abs (js_sub (sumAdCost_js cs) (ToNumber (ad_cost s)))) threshold_js
      then issues @ [\<lparr>field = AdCostField,
                      expected = ad_cost s,
                      actual = Number (sumAdCost_js cs),
                      diff = js_sub (sumAdCost_js cs) (ToNumber (ad_cost s)),
                      message = Message_js AdCostField
                        [Currency_js (Number (sumAdCost_js cs)), Currency_js (ad_cost s),
                         Currency_js (Number (Math_abs
                           (js_sub (sumAdCost_js cs) (ToNumber (ad_cost s)))))]\<rparr>]
      else issues)"

definition check_contribution_js ::
  "CompanySettlement_js \<Rightarrow> CourseSummary_js list \<Rightarrow> ValidationIssue_js list \<Rightarrow> ValidationIssue_js list" where
  "check_contribution_js s cs issues =
     (if js_gt (Math_abs (js_sub (sumContribution_js cs) (ToNumber (contribution s)))) threshold_js
      then issues @ [\<lparr>field = ContributionField,
                      expected = contribution s,
                      actual = Number (sumContribution_js cs),
                      diff = js_sub (sumContribution_js cs) (ToNumber (contribution s)),
                      message = Message_js ContributionField
                        [Currency_js (Number (sumContribution_js cs)), Currency_js (contribution s),
                         Currency_js (Number (Math_abs
                           (js_sub (sumContribution_js cs) (ToNumber (contribution s)))))]\<rparr>]
      else issues)"

definition check_formula_js ::
  "CompanySettlement_js \<Rightarrow> ValidationIssue_js list \<Rightarrow> ValidationIssue_js list" where
  "check_formula_js s issues =
     (if js_gt (Math_abs (js_sub (expectedContribution_js s) (ToNumber (contribution s)))) threshold_js
      then issues @ [\<lparr>field = ContributionFormulaField,
                      expected = Number (expectedContribution_js s),
                      actual = contribution s,
                      diff = js_sub (ToNumber (contribution s)) (expectedContribution_js s),
                      message = Message_js ContributionFormulaField
                        [Currency_js (contribution s),
                         Currency_js (Number (expectedContribution_js s))]\<rparr>]
      else issues)"

definition check_settlement_js ::
  "CompanySettlement_js \<Rightarrow> ValidationIssue_js list \<Rightarrow> ValidationIssue_js list" where
  "check_settlement_js s issues =
     (if js_gt (Math_abs (js_sub (expectedSettlement_js s) (ToNumber (settlement_amount s)))) threshold_js
      then issues @ [\<lparr>field = SettlementAmountField,
                      expected = Number (expectedSettlement_js s),
                      actual = settlement_amount s,
                      diff = js_sub (ToNumber (settlement_amount s)) (expectedSettlement_js s),
                      message = Message_js SettlementAmountField
                        [Currency_js (settlement_amount s),
                         Percent_js (Math_round_js (js_mul (ToNumber (union_payout_ratio s)) (Fin 100))),
                         Currency_js (Number (expectedSettlement_js s)),
                         Currency_js (Number (Math_abs
                           (js_sub (ToNumber (settlement_amount s)) (expectedSettlement_js s))))]\<rparr>]
      else issues)"

text \<open>The body of the \<open>forEach\<close> over the courses.\<close>

definition check_course_js :: "ValidationIssue_js list \<Rightarrow> CourseSummary_js \<Rightarrow> ValidationIssue_js list" where
  "check_course_js issues c =
     (if js_gt (Math_abs (js_sub (cExpected_js c) (nullish (CourseSummary_js.contribution c) (Fin 0))))
           threshold_js
      then issues @ [\<lparr>field = CourseContributionField (course_name c),
                      expected = Number (cExpected_js c),
                      actual = Number (nullish (CourseSummary_js.contribution c) (Fin 0)),
                      diff = js_sub (nullish (CourseSummary_js.contribution c) (Fin 0)) (cExpected_js c),
                      message = Message_js (CourseContributionField (course_name c))
                        [CourseName_js (course_name c),
                         Currency_js (Number (nullish (CourseSummary_js.contribution c) (Fin 0))),
                         Currency_js (Number (cExpected_js c))]\<rparr>]
      else issues)"

text \<open>
  The three sums come first and call \<open>reduce\<close> on \<open>s.courses\<close>: when the array is absent
  the first of them throws \<open>TypeError\<close> and no check runs. Otherwise the checks run in
  source order on an array that starts empty.
\<close>

definition issues_js :: "CompanySettlement_js \<Rightarrow> CourseSummary_js list \<Rightarrow> ValidationIssue_js list" where
  "issues_js s cs =
     foldl check_course_js
       (check_settlement_js s (check_formula_js s (check_contribution_js s cs
          (check_ad_cost_js s cs (check_revenue_js s cs [])))))
       cs"

definition validateSettlement_js :: "CompanySettlement_js \<Rightarrow> js_error + ValidationIssue_js list" where
  "validateSettlement_js s =
     (case courses s of
        None \<Rightarrow> Inl TypeError
      | Some cs \<Rightarrow> Inr (issues_js s cs))"

section \<open>The code as it runs: editing and recomputing\<close>

text \<open>
  \<open>handleEditCourse\<close>: copy the course at \<open>idx\<close>, assign the edited field, recompute
  its contribution as revenue minus advertising cost, store it back. The table rows call
  it with the index of a rendered row only; for an index outside the array JavaScript
  would create an entry with undefined fields, which the model leaves out (\<open>None\<close>).
  \<open>handleApplyEdits\<close> recomputes the company totals from the edited courses; here the
  sums have no \<open>?? 0\<close>, so an absent amount makes the total \<open>NaN\<close>.
\<close>

definition edit_course_js :: "edit_field \<Rightarrow> num \<Rightarrow> CourseSummary_js \<Rightarrow> CourseSummary_js" where
  "edit_course_js fld v c =
     (let course = (case fld of
                      Revenue \<Rightarrow> c\<lparr>CourseSummary_js.revenue := Number v\<rparr>
                    | AdCost \<Rightarrow> c\<lparr>CourseSummary_js.ad_cost := Number v\<rparr>)
      in course\<lparr>CourseSummary_js.contribution :=
                  Number (js_sub (ToNumber (CourseSummary_js.revenue course))
                              (ToNumber (CourseSummary_js.ad_cost course)))\<rparr>)"

definition handleEditCourse_js ::
  "nat \<Rightarrow> edit_field \<Rightarrow> num \<Rightarrow> CourseSummary_js list \<Rightarrow> CourseSummary_js list option" where
  "handleEditCourse_js idx fld v prev =
     (if idx < length prev
      then Some (prev[idx := edit_course_js fld v (prev ! idx)])
      else None)"

definition newRevenue_js :: "CourseSummary_js list \<Rightarrow> num" where
  "newRevenue_js ec = foldl (\<lambda>s c. js_add s (ToNumber (CourseSummary_js.revenue c))) (Fin 0) ec"

definition newAdCost_js :: "CourseSummary_js list \<Rightarrow> num" where
  "newAdCost_js ec = foldl (\<lambda>s c. js_add s (ToNumber (CourseSummary_js.ad_cost c))) (Fin 0) ec"

definition newContribution_js :: "CourseSummary_js list \<Rightarrow> num" where
  "newContribution_js ec =
     foldl (\<lambda>s c. js_add s (ToNumber (CourseSummary_js.contribution c))) (Fin 0) ec"

definition newSettlementAmount_js :: "jsval \<Rightarrow> CourseSummary_js list \<Rightarrow> num" where
  "newSettlementAmount_js ratio ec = Math_round_js (js_mul (newContribution_js ec) (ToNumber ratio))"

definition updatedCourses_js :: "jsval \<Rightarrow> CourseSummary_js list \<Rightarrow> CourseSummary_js list" where
  "updatedCourses_js ratio ec =
     map (\<lambda>c. c\<lparr>CourseSummary_js.revenue_share :=
                   Number (Math_round_js
                     (js_mul (ToNumber (CourseSummary_js.contribution c)) (ToNumber ratio)))\<rparr>) ec"

definition updatedSettlement_js ::
  "CompanySettlement_js \<Rightarrow> CourseSummary_js list \<Rightarrow> CompanySettlement_js" where
  "updatedSettlement_js s ec =
     (let ratio = union_payout_ratio s
      in s\<lparr>revenue := Number (newRevenue_js ec),
            ad_cost := Number (newAdCost_js ec),
            contribution := Number (newContribution_js ec),
            settlement_amount := Number (newSettlementAmount_js ratio ec),
            union_payout := Number (newSettlementAmount_js ratio ec),
            revenue_share :=
              Number (foldl (\<lambda>s c. js_add s (ToNumber (CourseSummary_js.revenue_share c))) (Fin 0)
                        (updatedCourses_js ratio ec)),
            courses := Some (updatedCourses_js ratio ec)\<rparr>)"

section \<open>The code as it runs: loading a settlement\<close>

text \<open>
  \<open>loadData\<close> reads the parse response cached in \<open>sessionStorage\<close> and, failing that,
  the archive of the period; \<open>cached\<close> and \<open>archive\<close> are what the two reads return
  (\<open>None\<close> when there is nothing or the read throws). Each path stores the response and
  the company's settlement, then validates it inside a \<open>try\<close>: when the validator throws,
  the \<open>catch\<close> falls through to the next path, and after the last one the page state
  gets the error notice. The page renders the error view when \<open>error\<close> is set or there
  is no settlement. Approval status, e-mail log and remarks are not modelled.
\<close>

datatype load_error = DataNotFound

record page_state_js =
  settlement :: "CompanySettlement_js option"
  fullData :: "ParseResponse_js option"
  validationIssues :: "ValidationIssue_js list"
  loading :: bool
  error :: "load_error option"






section \<open>The code as it runs: predicates and example data\<close>

text \<open>
  \<open>amount v\<close> is the real value of a finite number; \<open>whole_val v\<close> says that \<open>v\<close> is a
  finite whole number, as an amount of won is. \<open>column_sum\<close> and \<open>column_size\<close> are the
  exact sum of a column of course amounts and the sum of their magnitudes. A course is
  consistent when its contribution is the double difference of its revenue and cost,
  which is what an edit stores.
\<close>

definition amount :: "jsval \<Rightarrow> real" where
  "amount v = (case v of Number (Fin r) \<Rightarrow> r | _ \<Rightarrow> 0)"

definition whole_val :: "jsval \<Rightarrow> bool" where
  "whole_val v = (case v of Number (Fin r) \<Rightarrow> r = of_int \<lfloor>r\<rfloor> | _ \<Rightarrow> False)"

definition column_sum :: "(CourseSummary_js \<Rightarrow> jsval) \<Rightarrow> CourseSummary_js list \<Rightarrow> real" where
  "column_sum g cs = sum_list (map (\<lambda>c. amount (g c)) cs)"

definition column_size :: "(CourseSummary_js \<Rightarrow> jsval) \<Rightarrow> CourseSummary_js list \<Rightarrow> real" where
  "column_size g cs = sum_list (map (\<lambda>c. \<bar>amount (g c)\<bar>) cs)"

definition whole_column :: "(CourseSummary_js \<Rightarrow> jsval) \<Rightarrow> CourseSummary_js list \<Rightarrow> bool" where
  "whole_column g cs = list_all (\<lambda>c. whole_val (g c)) cs"

definition consistent_js :: "CourseSummary_js \<Rightarrow> bool" where
  "consistent_js c \<longleftrightarrow>
     CourseSummary_js.contribution c =
       Number (js_sub (ToNumber (CourseSummary_js.revenue c)) (ToNumber (CourseSummary_js.ad_cost c)))"

definition won :: "real \<Rightarrow> jsval" where
  "won r = Number (Fin r)"

definition demo_course_js :: "string \<Rightarrow> real \<Rightarrow> real \<Rightarrow> real \<Rightarrow> CourseSummary_js" where
  "demo_course_js n r a c =
     \<lparr>course_id = n, course_name = n, revenue = won r, ad_cost = won a, contribution = won c,
      revenue_share = won 0, section_name = ''B2C'', rs_ratio = won 0\<rparr>"

definition demo_company_js ::
  "real \<Rightarrow> real \<Rightarrow> real \<Rightarrow> real \<Rightarrow> real \<Rightarrow> CourseSummary_js list option \<Rightarrow> CompanySettlement_js" where
  "demo_company_js r a c amt ratio cs =
     \<lparr>company_name = ''demo'', revenue = won r, ad_cost = won a, contribution = won c,
      revenue_share = won amt, settlement_amount = won amt, union_payout = won amt,
      union_payout_ratio = won ratio, courses = cs\<rparr>"



section \<open>The typed reading: data model (\<open>lib/api\<close>)\<close>

record CourseSummary =
  course_id :: string
  course_name :: string
  revenue :: real
  ad_cost :: real
  contribution :: real
  revenue_share :: real
  section_name :: string
  rs_ratio :: real
  monthly_revenue :: "(string \<times> real) list option"

text \<open>
  \<open>section_name\<close> is the field \<open>section\<close> of the interface (a reserved word here).
  The fields of \<open>CompanySettlement\<close> repeat names of \<open>CourseSummary\<close>; below, a bare
  \<open>revenue\<close>, \<open>ad_cost\<close>, \<open>contribution\<close> or \<open>revenue_share\<close> is the company's field and
  the course's is written \<open>CourseSummary.revenue\<close> and so on. For the same reason
  \<open>company_type\<close> and \<open>info_union_payout_ratio\<close> are the fields \<open>type\<close> and
  \<open>union_payout_ratio\<close> of \<open>CompanyInfo\<close>, and \<open>all_courses\<close> is the field \<open>courses\<close> of
  \<open>ParseResponse\<close>.
\<close>

record CompanySettlement =
  company_name :: string
  revenue :: real
  ad_cost :: real
  contribution :: real
  revenue_share :: real
  settlement_amount :: real
  union_payout :: real
  union_payout_ratio :: real
  courses :: "CourseSummary list"

record CompanyInfo =
  company_id :: string
  name :: string
  company_type :: string
  biz_number :: string
  bank :: string
  account :: string
  contact_name :: string
  contact_email :: string
  tax_email :: string
  phone :: string
  address :: string
  representative :: string
  account_holder :: string
  contract_start :: string
  contract_end :: string
  revenue_share_ratio :: real
  info_union_payout_ratio :: real

record Summary =
  total_revenue :: real
  total_ad_cost :: real
  total_contribution :: real
  total_settlement :: real

text \<open>
  \<open>companies\<close> and \<open>companies_info\<close> are JavaScript objects used as dictionaries
  (\<open>Record<string, _>\<close>). They are association lists in insertion order, which is the
  order \<open>Object.values\<close> enumerates (keys that look like array indices apart, which
  JavaScript lists first; the sums below do not depend on the order).
\<close>

record ParseResponse =
  period :: string
  extraction_date :: string
  all_courses :: "CourseSummary list"
  course_count :: nat
  companies :: "(string \<times> CompanySettlement) list"
  company_count :: nat
  summary :: Summary
  source_file :: string
  has_monthly_breakdown :: bool
  companies_info :: "(string \<times> CompanyInfo) list"

section \<open>The typed reading: \<open>validateSettlement\<close>\<close>

text \<open>
  As in the first embedding, the \<open>message\<close> is kept as the check together with the
  interpolated arguments, in source order.
\<close>

datatype message_arg = Currency real | Percent int | CourseName string

datatype message = Message issue_field "message_arg list"

record ValidationIssue =
  field :: issue_field
  expected :: real
  actual :: real
  diff :: real
  message :: message

definition threshold :: real where
  "threshold = 2"

definition sumRevenue :: "CompanySettlement \<Rightarrow> real" where
  "sumRevenue s = foldl (\<lambda>acc c. acc + CourseSummary.revenue c) 0 (courses s)"

definition sumAdCost :: "CompanySettlement \<Rightarrow> real" where
  "sumAdCost s = foldl (\<lambda>acc c. acc + CourseSummary.ad_cost c) 0 (courses s)"

definition sumContribution :: "CompanySettlement \<Rightarrow> real" where
  "sumContribution s = foldl (\<lambda>acc c. acc + CourseSummary.contribution c) 0 (courses s)"

definition expectedContribution :: "CompanySettlement \<Rightarrow> real" where
  "expectedContribution s = revenue s - ad_cost s"

definition expectedSettlement :: "CompanySettlement \<Rightarrow> real" where
  "expectedSettlement s = of_int (Math_round (contribution s * union_payout_ratio s))"

definition cExpected :: "CourseSummary \<Rightarrow> real" where
  "cExpected c = CourseSummary.revenue c - CourseSummary.ad_cost c"

text \<open>The five company-level checks, each pushing at most one issue onto the array.\<close>

definition check_revenue :: "CompanySettlement \<Rightarrow> ValidationIssue list \<Rightarrow> ValidationIssue list" where
  "check_revenue s issues =
     (if \<bar>sumRevenue s - revenue s\<bar> > threshold
      then issues @ [\<lparr>field = RevenueField,
                      expected = revenue s,
                      actual = sumRevenue s,
                      diff = sumRevenue s - revenue s,
                      message = Message RevenueField
                        [Currency (sumRevenue s), Currency (revenue s),
                         Currency \<bar>sumRevenue s - revenue s\<bar>]\<rparr>]
      else issues)"

definition check_ad_cost :: "CompanySettlement \<Rightarrow> ValidationIssue list \<Rightarrow> ValidationIssue list" where
  "check_ad_cost s issues =
     (if \<bar>sumAdCost s - ad_cost s\<bar> > threshold
      then issues @ [\<lparr>field = AdCostField,
                      expected = ad_cost s,
                      actual = sumAdCost s,
                      diff = sumAdCost s - ad_cost s,
                      message = Message AdCostField
                        [Currency (sumAdCost s), Currency (ad_cost s),
                         Currency \<bar>sumAdCost s - ad_cost s\<bar>]\<rparr>]
      else issues)"

definition check_contribution :: "CompanySettlement \<Rightarrow> ValidationIssue list \<Rightarrow> ValidationIssue list" where
  "check_contribution s issues =
     (if \<bar>sumContribution s - contribution s\<bar> > threshold
      then issues @ [\<lparr>field = ContributionField,
                      expected = contribution s,
                      actual = sumContribution s,
                      diff = sumContribution s - contribution s,
                      message = Message ContributionField
                        [Currency (sumContribution s), Currency (contribution s),
                         Currency \<bar>sumContribution s - contribution s\<bar>]\<rparr>]
      else issues)"

definition check_formula :: "CompanySettlement \<Rightarrow> ValidationIssue list \<Rightarrow> ValidationIssue list" where
  "check_formula s issues =
     (if \<bar>expectedContribution s - contribution s\<bar> > threshold
      then issues @ [\<lparr>field = ContributionFormulaField,
                      expected = expectedContribution s,
                      actual = contribution s,
                      diff = contribution s - expectedContribution s,
                      message = Message ContributionFormulaField
                        [Currency (contribution s), Currency (expectedContribution s)]\<rparr>]
      else issues)"

definition check_settlement :: "CompanySettlement \<Rightarrow> ValidationIssue list \<Rightarrow> ValidationIssue list" where
  "check_settlement s issues =
     (if \<bar>expectedSettlement s - settlement_amount s\<bar> > threshold
      then issues @ [\<lparr>field = SettlementAmountField,
                      expected = expectedSettlement s,
                      actual = settlement_amount s,
                      diff = settlement_amount s - expectedSettlement s,
                      message = Message SettlementAmountField
                        [Currency (settlement_amount s),
                         Percent (Math_round (union_payout_ratio s * 100)),
                         Currency (expectedSettlement s),
                         Currency \<bar>settlement_amount s - expectedSettlement s\<bar>]\<rparr>]
      else issues)"

text \<open>The body of the \<open>forEach\<close> over the courses.\<close>

definition check_course :: "ValidationIssue list \<Rightarrow> CourseSummary \<Rightarrow> ValidationIssue list" where
  "check_course issues c =
     (if \<bar>cExpected c - CourseSummary.contribution c\<bar> > threshold
      then issues @ [\<lparr>field = CourseContributionField (course_name c),
                      expected = cExpected c,
                      actual = CourseSummary.contribution c,
                      diff = CourseSummary.contribution c - cExpected c,
                      message = Message (CourseContributionField (course_name c))
                        [CourseName (course_name c),
                         Currency (CourseSummary.contribution c),
                         Currency (cExpected c)]\<rparr>]
      else issues)"

text \<open>
  \<open>validateSettlement\<close> starts from the empty array and runs the checks in source order.
  The interface types every course amount as \<open>number\<close>, so the defaults \<open>?? 0\<close> of the
  source never apply.
\<close>

definition validateSettlement :: "CompanySettlement \<Rightarrow> ValidationIssue list" where
  "validateSettlement s =
     foldl check_course
       (check_settlement s (check_formula s (check_contribution s
          (check_ad_cost s (check_revenue s [])))))
       (courses s)"

section \<open>The typed reading: the settlement page (\<open>SettlementDetailPage\<close>)\<close>

text \<open>
  The part of the component state that the edit handlers read and write. The slot
  \<open>stored\<close> is the entry \<open>settlementData\<close> of \<open>sessionStorage\<close>; \<open>saveMessage\<close> is a
  fixed Korean notice, kept as a constructor. The timer that clears the notice after
  five seconds is not modelled.
\<close>

datatype notice = EditsApplied

record page_state =
  settlement :: "CompanySettlement option"
  fullData :: "ParseResponse option"
  validationIssues :: "ValidationIssue list"
  isEditing :: bool
  editCourses :: "CourseSummary list"
  saveMessage :: "notice option"
  stored :: "ParseResponse option"

text \<open>
  \<open>handleEditCourse\<close>: copy the course at \<open>idx\<close>, assign the edited field, recompute
  its contribution as revenue minus advertising cost, store it back. The table rows call
  it with the index of a rendered row only; for an index outside the array JavaScript
  would create an entry with undefined fields, which this model leaves out (\<open>None\<close>).
\<close>

definition edit_course :: "edit_field \<Rightarrow> real \<Rightarrow> CourseSummary \<Rightarrow> CourseSummary" where
  "edit_course fld v c =
     (let course = (case fld of
                      Revenue \<Rightarrow> c\<lparr>CourseSummary.revenue := v\<rparr>
                    | AdCost \<Rightarrow> c\<lparr>CourseSummary.ad_cost := v\<rparr>)
      in course\<lparr>CourseSummary.contribution :=
                  CourseSummary.revenue course - CourseSummary.ad_cost course\<rparr>)"

definition handleEditCourse ::
  "nat \<Rightarrow> edit_field \<Rightarrow> real \<Rightarrow> CourseSummary list \<Rightarrow> CourseSummary list option" where
  "handleEditCourse idx fld v prev =
     (if idx < length prev
      then Some (prev[idx := edit_course fld v (prev ! idx)])
      else None)"

text \<open>\<open>handleApplyEdits\<close>: the company totals recomputed from the edited courses.\<close>

definition newRevenue :: "CourseSummary list \<Rightarrow> real" where
  "newRevenue ec = foldl (\<lambda>s c. s + CourseSummary.revenue c) 0 ec"

definition newAdCost :: "CourseSummary list \<Rightarrow> real" where
  "newAdCost ec = foldl (\<lambda>s c. s + CourseSummary.ad_cost c) 0 ec"

definition newContribution :: "CourseSummary list \<Rightarrow> real" where
  "newContribution ec = foldl (\<lambda>s c. s + CourseSummary.contribution c) 0 ec"

definition newSettlementAmount :: "real \<Rightarrow> CourseSummary list \<Rightarrow> real" where
  "newSettlementAmount ratio ec = of_int (Math_round (newContribution ec * ratio))"

definition updatedCourses :: "real \<Rightarrow> CourseSummary list \<Rightarrow> CourseSummary list" where
  "updatedCourses ratio ec =
     map (\<lambda>c. c\<lparr>CourseSummary.revenue_share :=
                   of_int (Math_round (CourseSummary.contribution c * ratio))\<rparr>) ec"

definition updatedSettlement :: "CompanySettlement \<Rightarrow> CourseSummary list \<Rightarrow> CompanySettlement" where
  "updatedSettlement s ec =
     (let ratio = union_payout_ratio s
      in s\<lparr>revenue := newRevenue ec,
            ad_cost := newAdCost ec,
            contribution := newContribution ec,
            settlement_amount := newSettlementAmount ratio ec,
            union_payout := newSettlementAmount ratio ec,
            revenue_share :=
              foldl (\<lambda>s c. s + CourseSummary.revenue_share c) 0 (updatedCourses ratio ec),
            courses := updatedCourses ratio ec\<rparr>)"

text \<open>
  The object spread \<open>{ ...fullData.companies, [companyId]: updatedSettlement }\<close> keeps an
  existing key in its place with the new value and appends a new key.
\<close>

definition updatedCompanies ::
  "string \<Rightarrow> CompanySettlement \<Rightarrow> ParseResponse \<Rightarrow> (string \<times> CompanySettlement) list" where
  "updatedCompanies companyId us fd = AList.update companyId us (companies fd)"

definition Object_values :: "(string \<times> 'a) list \<Rightarrow> 'a list" where
  "Object_values obj = map snd obj"

definition updatedFullData :: "string \<Rightarrow> CompanySettlement \<Rightarrow> ParseResponse \<Rightarrow> ParseResponse" where
  "updatedFullData companyId us fd =
     (let uc = updatedCompanies companyId us fd;
          totalSettlement = foldl (\<lambda>s c. s + settlement_amount c) 0 (Object_values uc)
      in fd\<lparr>companies := uc,
             summary := (summary fd)\<lparr>
               total_revenue := foldl (\<lambda>s c. s + revenue c) 0 (Object_values uc),
               total_ad_cost := foldl (\<lambda>s c. s + ad_cost c) 0 (Object_values uc),
               total_contribution := foldl (\<lambda>s c. s + contribution c) 0 (Object_values uc),
               total_settlement := totalSettlement\<rparr>\<rparr>)"

definition handleApplyEdits :: "string \<Rightarrow> page_state \<Rightarrow> page_state" where
  "handleApplyEdits companyId st =
     (case (settlement st, fullData st) of
        (Some s, Some fd) \<Rightarrow>
          (let us = updatedSettlement s (editCourses st);
               ufd = updatedFullData companyId us fd
           in st\<lparr>settlement := Some us,
                  fullData := Some ufd,
                  validationIssues := validateSettlement us,
                  stored := Some ufd,
                  isEditing := False,
                  saveMessage := Some EditsApplied\<rparr>)
      | _ \<Rightarrow> st)"

section \<open>The typed reading: predicates and example data\<close>







text \<open>A course and a company settlement with the given amounts, for concrete instances.\<close>

definition demo_course :: "string \<Rightarrow> real \<Rightarrow> real \<Rightarrow> real \<Rightarrow> CourseSummary" where
  "demo_course n r a c =
     \<lparr>course_id = n, course_name = n, revenue = r, ad_cost = a, contribution = c,
      revenue_share = 0, section_name = ''B2C'', rs_ratio = 0, monthly_revenue = None\<rparr>"

definition demo_company ::
  "real \<Rightarrow> real \<Rightarrow> real \<Rightarrow> real \<Rightarrow> real \<Rightarrow> CourseSummary list \<Rightarrow> CompanySettlement" where
  "demo_company r a c amt ratio cs =
     \<lparr>company_name = ''demo'', revenue = r, ad_cost = a, contribution = c,
      revenue_share = amt, settlement_amount = amt, union_payout = amt,
      union_payout_ratio = ratio, courses = cs\<rparr>"


text \<open>A course whose contribution margin is its revenue minus its advertising cost.\<close>

definition consistent_course :: "CourseSummary \<Rightarrow> bool" where
  "consistent_course c \<longleftrightarrow>
     CourseSummary.contribution c = CourseSummary.revenue c - CourseSummary.ad_cost c"

text \<open>The fields of a course and of a company settlement that \<open>validateSettlement\<close> reads.\<close>

definition course_inputs :: "CourseSummary \<Rightarrow> string \<times> real \<times> real \<times> real" where
  "course_inputs c =
     (course_name c, CourseSummary.revenue c, CourseSummary.ad_cost c, CourseSummary.contribution c)"

definition validation_inputs ::
  "CompanySettlement \<Rightarrow> real \<times> real \<times> real \<times> real \<times> real \<times> (string \<times> real \<times> real \<times> real) list" where
  "validation_inputs s =
     (revenue s, ad_cost s, contribution s, settlement_amount s, union_payout_ratio s,
      map course_inputs (courses s))"

text \<open>A parse response with the given companies, and a page state in edit mode.\<close>

definition demo_response :: "(string \<times> CompanySettlement) list \<Rightarrow> ParseResponse" where
  "demo_response cs =
     \<lparr>period = ''2025-Q4'', extraction_date = [], all_courses = [], course_count = 0,
      companies = cs, company_count = length cs,
      summary = \<lparr>total_revenue = 0, total_ad_cost = 0, total_contribution = 0,
                  total_settlement = 0\<rparr>,
      source_file = [], has_monthly_breakdown = False, companies_info = []\<rparr>"

definition demo_state ::
  "CompanySettlement \<Rightarrow> ParseResponse \<Rightarrow> CourseSummary list \<Rightarrow> page_state" where
  "demo_state s fd ec =
     \<lparr>settlement = Some s, fullData = Some fd, validationIssues = [], isEditing = True,
      editCourses = ec, saveMessage = None, stored = None\<rparr>"

section \<open>The typed reading: the shape of the issue list\<close>

lemma foldl_add_sum_list:
  "foldl (\<lambda>acc c. acc + f c) a xs = a + sum_list (map f xs)" for a :: real
  by (induction xs arbitrary: a) simp_all

lemma check_course_append: "check_course (xs @ ys) c = xs @ check_course ys c"
  by (simp add: check_course_def)

lemma foldl_check_course:
  "foldl check_course iss cs = iss @ concat (map (check_course []) cs)"
proof (induction cs arbitrary: iss)
  case Nil
  show ?case by simp
next
  case (Cons c cs)
  have "check_course iss c = iss @ check_course [] c"
    using check_course_append [of iss "[]" c] by simp
  then show ?case by (simp add: Cons.IH)
qed

lemma validateSettlement_append:
  "validateSettlement s =
     check_revenue s [] @ check_ad_cost s [] @ check_contribution s [] @
     check_formula s [] @ check_settlement s [] @ concat (map (check_course []) (courses s))"
  by (simp add: validateSettlement_def foldl_check_course check_revenue_def check_ad_cost_def
      check_contribution_def check_formula_def check_settlement_def)





section \<open>Independence of the checks\<close>





section \<open>The scenario of a margin off by 500\<close>



section \<open>The typed reading: the recomputed totals\<close>

lemma updatedSettlement_simps:
  "revenue (updatedSettlement s ec) = sum_list (map CourseSummary.revenue ec)"
  "ad_cost (updatedSettlement s ec) = sum_list (map CourseSummary.ad_cost ec)"
  "contribution (updatedSettlement s ec) = sum_list (map CourseSummary.contribution ec)"
  "settlement_amount (updatedSettlement s ec) =
     of_int (Math_round (sum_list (map CourseSummary.contribution ec) * union_payout_ratio s))"
  "union_payout_ratio (updatedSettlement s ec) = union_payout_ratio s"
  "company_name (updatedSettlement s ec) = company_name s"
  "courses (updatedSettlement s ec) = updatedCourses (union_payout_ratio s) ec"
  by (simp_all add: updatedSettlement_def Let_def newRevenue_def newAdCost_def
      newContribution_def newSettlementAmount_def foldl_add_sum_list)

lemma Math_round_tie:
  "x - of_int \<lfloor>x\<rfloor> = 1 / 2 \<Longrightarrow> of_int (Math_round x) = x + 1 / 2"
proof -
  assume h: "x - of_int \<lfloor>x\<rfloor> = 1 / 2"
  then have "x + 1 / 2 = of_int (\<lfloor>x\<rfloor> + 1)" by simp
  then have "\<lfloor>x + 1 / 2\<rfloor> = \<lfloor>x\<rfloor> + 1" by (metis floor_of_int)
  then show ?thesis using h by (simp add: Math_round_def)
qed

section \<open>The payout ratio\<close>




section \<open>The typed reading: editing a course\<close>

lemma edit_course_consistent: "consistent_course (edit_course fld v c)"
  by (cases fld) (simp_all add: edit_course_def consistent_course_def)

lemma edit_course_fields:
  "CourseSummary.revenue (edit_course Revenue v c) = v"
  "CourseSummary.ad_cost (edit_course Revenue v c) = CourseSummary.ad_cost c"
  "CourseSummary.contribution (edit_course Revenue v c) = v - CourseSummary.ad_cost c"
  "CourseSummary.ad_cost (edit_course AdCost v c) = v"
  "CourseSummary.revenue (edit_course AdCost v c) = CourseSummary.revenue c"
  "CourseSummary.contribution (edit_course AdCost v c) = CourseSummary.revenue c - v"
  by (simp_all add: edit_course_def)

lemma sum_list_map_update:
  "i < length xs \<Longrightarrow>
   sum_list (map f (xs[i := y])) = sum_list (map f xs) - f (xs ! i) + f y" for f :: "'a \<Rightarrow> real"
proof (induction xs arbitrary: i)
  case Nil
  then show ?case by simp
next
  case (Cons x xs)
  then show ?case by (cases i) simp_all
qed

section \<open>Monotonicity\<close>

lemma Math_round_mono: "x \<le> y \<Longrightarrow> Math_round x \<le> Math_round y"
  unfolding Math_round_def by (simp add: floor_mono)

text \<open>
  Claim C7, as the specification states it: raising the revenue of a course never lowers
  the recomputed settlement amount. An edit replaces the course's stored contribution
  by its revenue minus its cost. For a company with ratio 1 and one course with revenue
  100, cost 0 and a stored margin of 102, which the validator accepts, raising the
  revenue to 101 makes the margin 101, and the recomputed amount falls from 102 to 101.
\<close>

theorem edit_resets_contribution_counterexample:
  "validateSettlement (demo_company 100 0 102 102 1 [demo_course ''a'' 100 0 102]) = [] \<and>
   handleEditCourse 0 Revenue 101 [demo_course ''a'' 100 0 102]
     = Some [demo_course ''a'' 101 0 101] \<and>
   settlement_amount (updatedSettlement
      (demo_company 100 0 102 102 1 [demo_course ''a'' 100 0 102])
      [demo_course ''a'' 100 0 102]) = 102 \<and>
   settlement_amount (updatedSettlement
      (demo_company 100 0 102 102 1 [demo_course ''a'' 100 0 102])
      [demo_course ''a'' 101 0 101]) = 101"
  by (simp add: validateSettlement_def check_revenue_def check_ad_cost_def
      check_contribution_def check_formula_def check_settlement_def check_course_def
      sumRevenue_def sumAdCost_def sumContribution_def threshold_def expectedContribution_def
      expectedSettlement_def cExpected_def demo_company_def demo_course_def Math_round_def
      handleEditCourse_def edit_course_def updatedSettlement_def newContribution_def
      newSettlementAmount_def Let_def)

text \<open>
  Claim C7, amended. For every company settlement with a non-negative payout ratio, of
  two revenues entered for the same course, every other course, the costs and the ratio
  being fixed, the larger never gives the smaller recomputed settlement amount; and
  raising the revenue of a course whose stored contribution is its revenue minus its
  cost never lowers the recomputed amount.
\<close>

theorem settlement_amount_monotone:
  assumes ratio: "0 \<le> union_payout_ratio s"
    and le: "v1 \<le> v2"
    and e1: "handleEditCourse idx Revenue v1 ec = Some ec1"
    and e2: "handleEditCourse idx Revenue v2 ec = Some ec2"
  shows "settlement_amount (updatedSettlement s ec1) \<le> settlement_amount (updatedSettlement s ec2) \<and>
         (consistent_course (ec ! idx) \<and> v1 = CourseSummary.revenue (ec ! idx) \<longrightarrow>
            settlement_amount (updatedSettlement s ec) \<le> settlement_amount (updatedSettlement s ec2))"
proof -
  from e1 have idx: "idx < length ec" and ec1: "ec1 = ec[idx := edit_course Revenue v1 (ec ! idx)]"
    by (auto simp: handleEditCourse_def split: if_splits)
  from e2 have ec2: "ec2 = ec[idx := edit_course Revenue v2 (ec ! idx)]"
    by (auto simp: handleEditCourse_def split: if_splits)
  have "sum_list (map CourseSummary.contribution ec1) \<le> sum_list (map CourseSummary.contribution ec2)"
    unfolding ec1 ec2 using idx le by (simp add: sum_list_map_update edit_course_fields)
  then have "sum_list (map CourseSummary.contribution ec1) * union_payout_ratio s
      \<le> sum_list (map CourseSummary.contribution ec2) * union_payout_ratio s"
    using ratio by (rule mult_right_mono)
  then have main: "settlement_amount (updatedSettlement s ec1)
      \<le> settlement_amount (updatedSettlement s ec2)"
    by (simp add: updatedSettlement_simps Math_round_mono)
  have same: "ec1 = ec" if "consistent_course (ec ! idx)" "v1 = CourseSummary.revenue (ec ! idx)"
  proof -
    have "edit_course Revenue v1 (ec ! idx) = ec ! idx"
      using that by (simp add: edit_course_def consistent_course_def Let_def)
    then show ?thesis by (simp add: ec1)
  qed
  from main same show ?thesis by auto
qed

text \<open>Raising the revenue of the second course from 400 to 401 at ratio 1/2.\<close>

theorem settlement_amount_monotone_witness:
  "settlement_amount (updatedSettlement (demo_company 0 0 0 0 (1 / 2) [])
      [demo_course ''a'' 600 150 450, demo_course ''b'' 400 50 350])
   \<le> settlement_amount (updatedSettlement (demo_company 0 0 0 0 (1 / 2) [])
      [demo_course ''a'' 600 150 450, demo_course ''b'' 401 50 351])"
  using settlement_amount_monotone [of "demo_company 0 0 0 0 (1 / 2) []" 400 401 1
      "[demo_course ''a'' 600 150 450, demo_course ''b'' 400 50 350]"
      "[demo_course ''a'' 600 150 450, demo_course ''b'' 400 50 350]"
      "[demo_course ''a'' 600 150 450, demo_course ''b'' 401 50 351]"]
  by (simp add: handleEditCourse_def edit_course_def demo_course_def demo_company_def
      consistent_course_def)

section \<open>Determinism and idempotence\<close>

lemma check_course_inputs:
  "course_inputs c = course_inputs c' \<Longrightarrow> check_course [] c = check_course [] c'"
  by (simp add: check_course_def cExpected_def course_inputs_def)

lemma course_issues_inputs:
  assumes "map course_inputs cs = map course_inputs cs'"
  shows "concat (map (check_course []) cs) = concat (map (check_course []) cs')"
proof -
  have len: "length cs = length cs'"
    using assms by (rule map_eq_imp_length_eq)
  from len assms show ?thesis
  proof (induction cs cs' rule: list_induct2)
    case Nil
    show ?case by simp
  next
    case (Cons c cs c' cs')
    then have hd: "course_inputs c = course_inputs c'"
      and tl: "map course_inputs cs = map course_inputs cs'"
      by simp_all
    show ?case
      using Cons.IH [OF tl] check_course_inputs [OF hd] by simp
  qed
qed

lemma sums_inputs:
  assumes "map course_inputs cs = map course_inputs cs'"
  shows "sum_list (map CourseSummary.revenue cs) = sum_list (map CourseSummary.revenue cs')"
    and "sum_list (map CourseSummary.ad_cost cs) = sum_list (map CourseSummary.ad_cost cs')"
    and "sum_list (map CourseSummary.contribution cs) = sum_list (map CourseSummary.contribution cs')"
proof -
  have r: "map CourseSummary.revenue xs = map (\<lambda>(n, r, a, c). r) (map course_inputs xs)" for xs
    by (simp add: course_inputs_def)
  have a: "map CourseSummary.ad_cost xs = map (\<lambda>(n, r, a, c). a) (map course_inputs xs)" for xs
    by (simp add: course_inputs_def)
  have c: "map CourseSummary.contribution xs = map (\<lambda>(n, r, a, c). c) (map course_inputs xs)" for xs
    by (simp add: course_inputs_def)
  show "sum_list (map CourseSummary.revenue cs) = sum_list (map CourseSummary.revenue cs')"
    unfolding r assms ..
  show "sum_list (map CourseSummary.ad_cost cs) = sum_list (map CourseSummary.ad_cost cs')"
    unfolding a assms ..
  show "sum_list (map CourseSummary.contribution cs) = sum_list (map CourseSummary.contribution cs')"
    unfolding c assms ..
qed

lemma validateSettlement_inputs:
  assumes "validation_inputs s = validation_inputs s'"
  shows "validateSettlement s = validateSettlement s'"
proof -
  from assms have flds: "revenue s = revenue s'" "ad_cost s = ad_cost s'"
      "contribution s = contribution s'" "settlement_amount s = settlement_amount s'"
      "union_payout_ratio s = union_payout_ratio s'"
    and cs: "map course_inputs (courses s) = map course_inputs (courses s')"
    by (simp_all add: validation_inputs_def)
  show ?thesis
    unfolding validateSettlement_append
    by (simp add: check_revenue_def check_ad_cost_def check_contribution_def check_formula_def
        check_settlement_def sumRevenue_def sumAdCost_def sumContribution_def
        foldl_add_sum_list expectedContribution_def expectedSettlement_def flds
        sums_inputs [OF cs] course_issues_inputs [OF cs])
qed

lemma updatedSettlement_idem:
  "updatedSettlement (updatedSettlement s ec) ec = updatedSettlement s ec"
  by (simp add: updatedSettlement_def Let_def)

lemma updatedFullData_idem:
  "updatedFullData cid us (updatedFullData cid us fd) = updatedFullData cid us fd"
  by (simp add: updatedFullData_def updatedCompanies_def Let_def)

lemma handleApplyEdits_Some:
  "settlement st = Some s \<Longrightarrow> fullData st = Some fd \<Longrightarrow>
   handleApplyEdits cid st =
     st\<lparr>settlement := Some (updatedSettlement s (editCourses st)),
        fullData := Some (updatedFullData cid (updatedSettlement s (editCourses st)) fd),
        validationIssues := validateSettlement (updatedSettlement s (editCourses st)),
        stored := Some (updatedFullData cid (updatedSettlement s (editCourses st)) fd),
        isEditing := False,
        saveMessage := Some EditsApplied\<rparr>"
  by (simp add: handleApplyEdits_def Let_def)

lemma handleApplyEdits_idem:
  "handleApplyEdits cid (handleApplyEdits cid st) = handleApplyEdits cid st"
proof (cases "settlement st")
  case None
  then show ?thesis by (simp add: handleApplyEdits_def)
next
  case (Some s)
  show ?thesis
  proof (cases "fullData st")
    case None
    then show ?thesis by (simp add: handleApplyEdits_def Some)
  next
    case fd: (Some fd)
    show ?thesis
      by (simp add: handleApplyEdits_Some [OF Some fd] handleApplyEdits_Some
          updatedSettlement_idem updatedFullData_idem)
  qed
qed

text \<open>
  Claim C8. The computation is deterministic and idempotent. Two page states that hold
  the same settlement, the same parse response and the same edited courses give the
  same state after \<open>handleApplyEdits\<close>, whatever their issue list, edit flag, notice and
  stored copy were before; applying the edits a second time changes nothing; and two
  settlements that agree on the amounts, the ratio and the names and amounts of their
  courses get the same issue list, field by field, message included.
\<close>

theorem apply_and_validate_deterministic:
  "(settlement st1 = Some s \<and> fullData st1 = Some fd \<and>
    settlement st2 = Some s \<and> fullData st2 = Some fd \<and> editCourses st1 = editCourses st2 \<longrightarrow>
      handleApplyEdits cid st1 = handleApplyEdits cid st2) \<and>
   handleApplyEdits cid (handleApplyEdits cid st) = handleApplyEdits cid st \<and>
   (validation_inputs s1 = validation_inputs s2 \<longrightarrow> validateSettlement s1 = validateSettlement s2)"
proof (intro conjI impI)
  assume h: "settlement st1 = Some s \<and> fullData st1 = Some fd \<and>
    settlement st2 = Some s \<and> fullData st2 = Some fd \<and> editCourses st1 = editCourses st2"
  then have "handleApplyEdits cid st1 =
      st1\<lparr>settlement := Some (updatedSettlement s (editCourses st1)),
        fullData := Some (updatedFullData cid (updatedSettlement s (editCourses st1)) fd),
        validationIssues := validateSettlement (updatedSettlement s (editCourses st1)),
        stored := Some (updatedFullData cid (updatedSettlement s (editCourses st1)) fd),
        isEditing := False,
        saveMessage := Some EditsApplied\<rparr>"
    by (simp add: handleApplyEdits_Some)
  moreover from h have "handleApplyEdits cid st2 =
      st2\<lparr>settlement := Some (updatedSettlement s (editCourses st1)),
        fullData := Some (updatedFullData cid (updatedSettlement s (editCourses st1)) fd),
        validationIssues := validateSettlement (updatedSettlement s (editCourses st1)),
        stored := Some (updatedFullData cid (updatedSettlement s (editCourses st1)) fd),
        isEditing := False,
        saveMessage := Some EditsApplied\<rparr>"
    by (simp add: handleApplyEdits_Some)
  ultimately show "handleApplyEdits cid st1 = handleApplyEdits cid st2"
    using h by (simp add: page_state.equality)
next
  show "handleApplyEdits cid (handleApplyEdits cid st) = handleApplyEdits cid st"
    by (rule handleApplyEdits_idem)
next
  assume "validation_inputs s1 = validation_inputs s2"
  then show "validateSettlement s1 = validateSettlement s2"
    by (rule validateSettlement_inputs)
qed

text \<open>
  Two states that differ in everything but the inputs, and two settlements that differ in
  the fields the validator does not read.
\<close>

theorem apply_and_validate_deterministic_witness:
  "handleApplyEdits ''a''
     (demo_state (demo_company 0 0 0 0 (1 / 2) []) (demo_response []) [demo_course ''x'' 10 4 6])
   = handleApplyEdits ''a''
     ((demo_state (demo_company 0 0 0 0 (1 / 2) []) (demo_response []) [demo_course ''x'' 10 4 6])
        \<lparr>validationIssues := validateSettlement (demo_company 9 9 9 9 9 []),
         isEditing := False, saveMessage := Some EditsApplied,
         stored := Some (demo_response [])\<rparr>) \<and>
   validateSettlement (demo_company 10 4 6 3 (1 / 2) [demo_course ''x'' 10 4 6])
   = validateSettlement ((demo_company 10 4 6 3 (1 / 2) [demo_course ''x'' 10 4 6])
        \<lparr>company_name := ''other'', revenue_share := 77, union_payout := 78\<rparr>)"
  using apply_and_validate_deterministic [of "demo_state (demo_company 0 0 0 0 (1 / 2) []) (demo_response []) [demo_course ''x'' 10 4 6]"
      "demo_company 0 0 0 0 (1 / 2) []" "demo_response []"
      "(demo_state (demo_company 0 0 0 0 (1 / 2) []) (demo_response []) [demo_course ''x'' 10 4 6])
        \<lparr>validationIssues := validateSettlement (demo_company 9 9 9 9 9 []),
         isEditing := False, saveMessage := Some EditsApplied,
         stored := Some (demo_response [])\<rparr>"
      "''a''"
      "demo_state (demo_company 0 0 0 0 (1 / 2) []) (demo_response []) [demo_course ''x'' 10 4 6]"
      "demo_company 10 4 6 3 (1 / 2) [demo_course ''x'' 10 4 6]"
      "(demo_company 10 4 6 3 (1 / 2) [demo_course ''x'' 10 4 6])
        \<lparr>company_name := ''other'', revenue_share := 77, union_payout := 78\<rparr>"]
  by (simp add: demo_state_def validation_inputs_def demo_company_def)

section \<open>The companies map and the summary\<close>

lemma sum_values_distinct:
  "distinct (map fst al) \<Longrightarrow>
   sum_list (map f (map snd al)) = (\<Sum>k\<in>dom (map_of al). f (the (map_of al k)))"
  for f :: "'b \<Rightarrow> real"
proof (induction al)
  case Nil
  show ?case by simp
next
  case (Cons p al)
  obtain k v where p: "p = (k, v)" by (cases p)
  from Cons.prems have notin: "k \<notin> dom (map_of al)" and dist: "distinct (map fst al)"
    by (auto simp: p dom_map_of_conv_image_fst)
  define g where "g = (\<lambda>k'. f (the (map_of (p # al) k')))"
  have fin: "finite (dom (map_of al))"
    by (rule finite_dom_map_of)
  have gk: "g k = f v"
    by (simp add: g_def p)
  have rest: "(\<Sum>k'\<in>dom (map_of al). g k') = (\<Sum>k'\<in>dom (map_of al). f (the (map_of al k')))"
    using notin by (intro sum.cong) (auto simp: g_def p)
  have dom: "dom (map_of (p # al)) = insert k (dom (map_of al))"
    by (auto simp: p)
  have "sum_list (map f (map snd (p # al))) = f v + sum_list (map f (map snd al))"
    by (simp add: p)
  also have "\<dots> = g k + (\<Sum>k'\<in>dom (map_of al). g k')"
    using Cons.IH [OF dist] rest gk by simp
  also have "\<dots> = (\<Sum>k'\<in>insert k (dom (map_of al)). g k')"
    using fin notin by simp
  finally show ?case
    unfolding dom g_def .
qed

text \<open>
  Claim C10. Frame property of the edit-recompute step: applying the edits replaces the
  settlement record of the edited company only. In the updated companies map the
  company id is bound to the recomputed settlement, every other company id is bound as
  before, and each summary field (total revenue, total advertising cost, total
  contribution, total settlement) is the sum of that field over all companies of the
  updated map. The keys of the companies object are distinct.
\<close>

theorem apply_edits_frame:
  assumes s: "settlement st = Some s"
    and fd: "fullData st = Some fd"
    and dist: "distinct (map fst (companies fd))"
  shows "\<exists>fd'. fullData (handleApplyEdits cid st) = Some fd' \<and>
      map_of (companies fd') cid = Some (updatedSettlement s (editCourses st)) \<and>
      (\<forall>k. k \<noteq> cid \<longrightarrow> map_of (companies fd') k = map_of (companies fd) k) \<and>
      total_revenue (summary fd') =
        (\<Sum>k\<in>dom (map_of (companies fd')). revenue (the (map_of (companies fd') k))) \<and>
      total_ad_cost (summary fd') =
        (\<Sum>k\<in>dom (map_of (companies fd')). ad_cost (the (map_of (companies fd') k))) \<and>
      total_contribution (summary fd') =
        (\<Sum>k\<in>dom (map_of (companies fd')). contribution (the (map_of (companies fd') k))) \<and>
      total_settlement (summary fd') =
        (\<Sum>k\<in>dom (map_of (companies fd')). settlement_amount (the (map_of (companies fd') k)))"
proof -
  define us where "us = updatedSettlement s (editCourses st)"
  define fd' where "fd' = updatedFullData cid us fd"
  have comp: "companies fd' = AList.update cid us (companies fd)"
    by (simp add: fd'_def updatedFullData_def updatedCompanies_def Let_def)
  have dist': "distinct (map fst (companies fd'))"
    unfolding comp using dist by (rule distinct_update)
  have full: "fullData (handleApplyEdits cid st) = Some fd'"
    by (simp add: handleApplyEdits_Some [OF s fd] fd'_def us_def)
  have at: "map_of (companies fd') cid = Some us"
    by (simp add: comp update_conv')
  have frame: "\<forall>k. k \<noteq> cid \<longrightarrow> map_of (companies fd') k = map_of (companies fd) k"
    by (simp add: comp update_conv')
  have sums:
    "total_revenue (summary fd') = sum_list (map revenue (map snd (companies fd')))"
    "total_ad_cost (summary fd') = sum_list (map ad_cost (map snd (companies fd')))"
    "total_contribution (summary fd') = sum_list (map contribution (map snd (companies fd')))"
    "total_settlement (summary fd') = sum_list (map settlement_amount (map snd (companies fd')))"
    by (simp_all add: fd'_def updatedFullData_def updatedCompanies_def Let_def
        Object_values_def foldl_add_sum_list)
  show ?thesis
    using full at frame sums sum_values_distinct [OF dist'] by (auto simp: us_def)
qed

text \<open>Two companies; the edits of company \<open>b\<close> leave company \<open>a\<close> as it was.\<close>

theorem apply_edits_frame_witness:
  "\<exists>fd'. fullData (handleApplyEdits ''b''
        (demo_state (demo_company 5 5 0 0 (1 / 2) [])
           (demo_response [(''a'', demo_company 100 40 60 30 (1 / 2) []),
                           (''b'', demo_company 5 5 0 0 (1 / 2) [])])
           [demo_course ''x'' 10 4 6])) = Some fd' \<and>
      map_of (companies fd') ''a'' = Some (demo_company 100 40 60 30 (1 / 2) []) \<and>
      total_revenue (summary fd') =
        (\<Sum>k\<in>dom (map_of (companies fd')). revenue (the (map_of (companies fd') k)))"
proof -
  have "\<exists>fd'. fullData (handleApplyEdits ''b''
        (demo_state (demo_company 5 5 0 0 (1 / 2) [])
           (demo_response [(''a'', demo_company 100 40 60 30 (1 / 2) []),
                           (''b'', demo_company 5 5 0 0 (1 / 2) [])])
           [demo_course ''x'' 10 4 6])) = Some fd' \<and>
      map_of (companies fd') ''b'' = Some (updatedSettlement (demo_company 5 5 0 0 (1 / 2) [])
        (editCourses (demo_state (demo_company 5 5 0 0 (1 / 2) [])
           (demo_response [(''a'', demo_company 100 40 60 30 (1 / 2) []),
                           (''b'', demo_company 5 5 0 0 (1 / 2) [])])
           [demo_course ''x'' 10 4 6]))) \<and>
      (\<forall>k. k \<noteq> ''b'' \<longrightarrow> map_of (companies fd') k =
         map_of (companies (demo_response [(''a'', demo_company 100 40 60 30 (1 / 2) []),
                           (''b'', demo_company 5 5 0 0 (1 / 2) [])])) k) \<and>
      total_revenue (summary fd') =
        (\<Sum>k\<in>dom (map_of (companies fd')). revenue (the (map_of (companies fd') k))) \<and>
      total_ad_cost (summary fd') =
        (\<Sum>k\<in>dom (map_of (companies fd')). ad_cost (the (map_of (companies fd') k))) \<and>
      total_contribution (summary fd') =
        (\<Sum>k\<in>dom (map_of (companies fd')). contribution (the (map_of (companies fd') k))) \<and>
      total_settlement (summary fd') =
        (\<Sum>k\<in>dom (map_of (companies fd')). settlement_amount (the (map_of (companies fd') k)))"
    by (rule apply_edits_frame) (simp_all add: demo_state_def demo_response_def)
  then obtain fd' where fd':
      "fullData (handleApplyEdits ''b''
        (demo_state (demo_company 5 5 0 0 (1 / 2) [])
           (demo_response [(''a'', demo_company 100 40 60 30 (1 / 2) []),
                           (''b'', demo_company 5 5 0 0 (1 / 2) [])])
           [demo_course ''x'' 10 4 6])) = Some fd'"
      "\<forall>k. k \<noteq> ''b'' \<longrightarrow> map_of (companies fd') k =
         map_of (companies (demo_response [(''a'', demo_company 100 40 60 30 (1 / 2) []),
                           (''b'', demo_company 5 5 0 0 (1 / 2) [])])) k"
      "total_revenue (summary fd') =
        (\<Sum>k\<in>dom (map_of (companies fd')). revenue (the (map_of (companies fd') k)))"
    by blast
  from fd'(2) have "map_of (companies fd') ''a'' = Some (demo_company 100 40 60 30 (1 / 2) [])"
    by (simp add: demo_response_def)
  with fd'(1,3) show ?thesis by blast
qed

section \<open>The code as it runs: whole numbers are computed exactly\<close>

lemma expo_up_ge: "e \<le> expo_up n x e"
proof (induction n arbitrary: x e)
  case 0
  show ?case by simp
next
  case (Suc n)
  have "e + 1 \<le> expo_up n (x / 2) (e + 1)" by (rule Suc.IH)
  then show ?case by simp
qed

lemma expo_up_le: "x < 2 ^ Suc k \<Longrightarrow> expo_up n x e \<le> e + int k"
proof (induction n arbitrary: x e k)
  case 0
  show ?case by simp
next
  case (Suc n)
  show ?case
  proof (cases "x < 2")
    case True
    then show ?thesis by simp
  next
    case False
    with Suc.prems obtain j where k: "k = Suc j"
      by (cases k) auto
    from Suc.prems have "x / 2 < 2 ^ Suc j"
      by (simp add: k)
    then have "expo_up n (x / 2) (e + 1) \<le> (e + 1) + int j"
      by (rule Suc.IH)
    with False show ?thesis by (simp add: k)
  qed
qed

lemma expo_up_pow: "1 \<le> x \<Longrightarrow> 2 ^ nat (expo_up n x e - e) \<le> x"
proof (induction n arbitrary: x e)
  case 0
  then show ?case by simp
next
  case (Suc n)
  show ?case
  proof (cases "x < 2")
    case True
    with Suc.prems show ?thesis by simp
  next
    case False
    then have half: "1 \<le> x / 2" by simp
    define r where "r = expo_up n (x / 2) (e + 1)"
    have ge: "e + 1 \<le> r" unfolding r_def by (rule expo_up_ge)
    have "2 ^ nat (r - (e + 1)) \<le> x / 2"
      unfolding r_def using half by (rule Suc.IH)
    moreover have "nat (r - e) = Suc (nat (r - (e + 1)))"
      using ge by simp
    ultimately have "2 ^ nat (r - e) \<le> x" by simp
    with False show ?thesis by (simp add: r_def)
  qed
qed

lemma round_half_even_of_int: "round_half_even (of_int k) = k"
  by (simp add: round_half_even_def)

lemma fl_whole:
  assumes int: "x \<in> \<int>" and bound: "\<bar>x\<bar> \<le> 2 ^ 53"
  shows "fl x = x" and "expo x \<le> 53"
proof -
  show e53: "expo x \<le> 53"
  proof (cases "1 \<le> \<bar>x\<bar>")
    case True
    have "\<bar>x\<bar> < 2 ^ Suc 53" using bound by simp
    then have "expo_up 1024 \<bar>x\<bar> 0 \<le> 0 + int 53" by (rule expo_up_le)
    with True show ?thesis by (simp add: expo_def)
  next
    case False
    from int obtain k where k: "x = of_int k" by (auto elim: Ints_cases)
    with False have "x = 0" by (simp flip: of_int_abs)
    then show ?thesis by (simp add: expo_def)
  qed
  show "fl x = x"
  proof (cases "x = 0")
    case True
    then show ?thesis by (simp add: fl_def)
  next
    case False
    from int obtain k where k: "x = of_int k" by (auto elim: Ints_cases)
    with False have one: "1 \<le> \<bar>x\<bar>" by (simp flip: of_int_abs)
    define e where "e = expo x"
    have e_up: "e = expo_up 1024 \<bar>x\<bar> 0" using one False by (simp add: e_def expo_def)
    have e0: "0 \<le> e" unfolding e_up by (rule expo_up_ge)
    have low: "2 ^ nat e \<le> \<bar>x\<bar>"
      using expo_up_pow [OF one, of 1024 0] by (simp add: e_up)
    have "\<exists>m. x / pow2 (e - 52) = of_int m"
    proof (cases "e \<le> 52")
      case True
      then have "x / pow2 (e - 52) = of_int (k * 2 ^ nat (52 - e))"
        by (simp add: pow2_def k)
      then show ?thesis ..
    next
      case False
      with e53 have e: "e = 53" by (simp add: e_def)
      with low bound have ax: "\<bar>x\<bar> = 2 ^ 53" by simp
      then have "x = 2 ^ 53 \<or> x = - (2 ^ 53)" by (simp add: abs_if split: if_splits)
      then have "x / pow2 (e - 52) = of_int (2 ^ 52) \<or> x / pow2 (e - 52) = of_int (- (2 ^ 52))"
        by (auto simp: pow2_def e)
      then show ?thesis by blast
    qed
    then obtain m where m: "x / pow2 (e - 52) = of_int m" ..
    have pos: "pow2 (e - 52) \<noteq> 0" by (simp add: pow2_def)
    have "fl x = of_int m * pow2 (e - 52)"
      using False by (simp add: fl_def Let_def m round_half_even_of_int flip: e_def)
    also have "\<dots> = x" using m pos by (simp add: field_simps)
    finally show ?thesis .
  qed
qed

lemma rnd_whole: "x \<in> \<int> \<Longrightarrow> \<bar>x\<bar> \<le> 2 ^ 53 \<Longrightarrow> rnd x = Fin x"
  using fl_whole [of x] by (simp add: rnd_def Let_def)

lemma whole_val_simps:
  assumes "whole_val v"
  shows "ToNumber v = Fin (amount v)" and "nullish v d = Fin (amount v)" and "amount v \<in> \<int>"
proof -
  from assms obtain r where v: "v = Number (Fin r)" and r: "r = of_int \<lfloor>r\<rfloor>"
    by (auto simp: whole_val_def split: jsval.splits num.splits)
  from r have "r \<in> \<int>" by (metis Ints_of_int)
  then show "ToNumber v = Fin (amount v)" and "nullish v d = Fin (amount v)" and "amount v \<in> \<int>"
    by (simp_all add: v amount_def)
qed

lemma add_whole:
  "x \<in> \<int> \<Longrightarrow> y \<in> \<int> \<Longrightarrow> \<bar>x + y\<bar> \<le> 2 ^ 53 \<Longrightarrow> js_add (Fin x) (Fin y) = Fin (x + y)"
  by (simp add: js_add_def rnd_whole)

lemma sub_whole:
  "x \<in> \<int> \<Longrightarrow> y \<in> \<int> \<Longrightarrow> \<bar>x - y\<bar> \<le> 2 ^ 53 \<Longrightarrow> js_sub (Fin x) (Fin y) = Fin (x - y)"
  using add_whole [of x "- y"] by (simp add: js_sub_def js_neg_def)

lemma foldl_add_whole:
  assumes "\<forall>c\<in>set cs. h c = Fin (a c) \<and> a c \<in> \<int>"
    and "acc \<in> \<int>"
    and "\<bar>acc\<bar> + sum_list (map (\<lambda>c. \<bar>a c\<bar>) cs) \<le> 2 ^ 53"
  shows "foldl (\<lambda>s c. js_add s (h c)) (Fin acc) cs = Fin (acc + sum_list (map a cs))"
  using assms
proof (induction cs arbitrary: acc)
  case Nil
  show ?case by simp
next
  case (Cons c cs)
  from Cons.prems have hc: "h c = Fin (a c)" and ac: "a c \<in> \<int>"
    and rest: "\<forall>c\<in>set cs. h c = Fin (a c) \<and> a c \<in> \<int>"
    by simp_all
  have nonneg: "0 \<le> sum_list (map (\<lambda>c. \<bar>a c\<bar>) cs)"
    by (rule sum_list_nonneg) auto
  have step: "\<bar>acc + a c\<bar> \<le> 2 ^ 53"
    using Cons.prems(3) nonneg by simp
  have "js_add (Fin acc) (h c) = Fin (acc + a c)"
    unfolding hc using Cons.prems(2) ac step by (rule add_whole)
  moreover have "foldl (\<lambda>s c. js_add s (h c)) (Fin (acc + a c)) cs =
      Fin ((acc + a c) + sum_list (map a cs))"
  proof (rule Cons.IH [OF rest])
    show "acc + a c \<in> \<int>" using Cons.prems(2) ac by simp
    show "\<bar>acc + a c\<bar> + sum_list (map (\<lambda>c. \<bar>a c\<bar>) cs) \<le> 2 ^ 53"
      using Cons.prems(3) by simp
  qed
  ultimately show ?case by (simp add: add.assoc)
qed

lemma column_nullish:
  assumes "whole_column g cs" and "column_size g cs \<le> 2 ^ 53"
  shows "foldl (\<lambda>s c. js_add s (nullish (g c) (Fin 0))) (Fin 0) cs = Fin (column_sum g cs)"
proof -
  have "\<forall>c\<in>set cs. nullish (g c) (Fin 0) = Fin (amount (g c)) \<and> amount (g c) \<in> \<int>"
  proof
    fix c assume "c \<in> set cs"
    with assms(1) have "whole_val (g c)" by (simp add: whole_column_def list_all_iff)
    then show "nullish (g c) (Fin 0) = Fin (amount (g c)) \<and> amount (g c) \<in> \<int>"
      by (simp add: whole_val_simps)
  qed
  then have "foldl (\<lambda>s c. js_add s (nullish (g c) (Fin 0))) (Fin 0) cs =
      Fin (0 + sum_list (map (\<lambda>c. amount (g c)) cs))"
    using assms(2) by (intro foldl_add_whole) (simp_all add: column_size_def)
  then show ?thesis by (simp add: column_sum_def)
qed

lemma column_ToNumber:
  assumes "whole_column g cs" and "column_size g cs \<le> 2 ^ 53"
  shows "foldl (\<lambda>s c. js_add s (ToNumber (g c))) (Fin 0) cs = Fin (column_sum g cs)"
proof -
  have "\<forall>c\<in>set cs. ToNumber (g c) = Fin (amount (g c)) \<and> amount (g c) \<in> \<int>"
  proof
    fix c assume "c \<in> set cs"
    with assms(1) have "whole_val (g c)" by (simp add: whole_column_def list_all_iff)
    then show "ToNumber (g c) = Fin (amount (g c)) \<and> amount (g c) \<in> \<int>"
      by (simp add: whole_val_simps)
  qed
  then have "foldl (\<lambda>s c. js_add s (ToNumber (g c))) (Fin 0) cs =
      Fin (0 + sum_list (map (\<lambda>c. amount (g c)) cs))"
    using assms(2) by (intro foldl_add_whole) (simp_all add: column_size_def)
  then show ?thesis by (simp add: column_sum_def)
qed

lemma column_sum_Ints: "whole_column g cs \<Longrightarrow> column_sum g cs \<in> \<int>"
  unfolding column_sum_def whole_column_def
  by (induction cs) (simp_all add: whole_val_simps)

lemma column_sum_le_size: "\<bar>column_sum g cs\<bar> \<le> column_size g cs"
  unfolding column_sum_def column_size_def
  by (induction cs) auto

section \<open>The code as it runs: evaluation and the shape of the issue list\<close>

lemma expo_up_numeral:
  "expo_up (numeral k) x e = (if x < 2 then e else expo_up (pred_numeral k) (x / 2) (e + 1))"
  by (simp add: numeral_eq_Suc)

lemma expo_down_numeral:
  "expo_down (numeral k) x e = (if 1 \<le> x then e else expo_down (pred_numeral k) (x * 2) (e - 1))"
  by (simp add: numeral_eq_Suc)

lemmas js_eval = js_add_def js_sub_def js_neg_def js_mul_def rnd_def fl_def expo_def expo_up_numeral
  expo_down_numeral pow2_def round_half_even_def Let_def js_gt_def Math_abs_def Math_round_js_def
  Math_round_def

lemmas demo_js = won_def demo_course_js_def demo_company_js_def amount_def whole_val_def
  whole_column_def column_sum_def column_size_def

lemmas validator_js = issues_js_def check_revenue_js_def check_ad_cost_js_def
  check_contribution_js_def check_formula_js_def check_settlement_js_def check_course_js_def
  sumRevenue_js_def sumAdCost_js_def sumContribution_js_def expectedContribution_js_def
  expectedSettlement_js_def cExpected_js_def threshold_js_def

lemmas apply_js = updatedSettlement_js_def newRevenue_js_def newAdCost_js_def
  newContribution_js_def newSettlementAmount_js_def updatedCourses_js_def
  handleEditCourse_js_def edit_course_js_def consistent_js_def

lemma check_course_js_append: "check_course_js (xs @ ys) c = xs @ check_course_js ys c"
  by (simp add: check_course_js_def)

lemma foldl_check_course_js:
  "foldl check_course_js iss cs = iss @ concat (map (check_course_js []) cs)"
proof (induction cs arbitrary: iss)
  case Nil
  show ?case by simp
next
  case (Cons c cs)
  have "check_course_js iss c = iss @ check_course_js [] c"
    using check_course_js_append [of iss "[]" c] by simp
  then show ?case by (simp add: Cons.IH)
qed

lemma issues_js_append:
  "issues_js s cs =
     check_revenue_js s cs [] @ check_ad_cost_js s cs [] @ check_contribution_js s cs [] @
     check_formula_js s [] @ check_settlement_js s [] @ concat (map (check_course_js []) cs)"
  by (simp add: issues_js_def foldl_check_course_js check_revenue_js_def check_ad_cost_js_def
      check_contribution_js_def check_formula_js_def check_settlement_js_def)

lemma course_fields_js:
  "ValidationIssue_js.field ` set (concat (map (check_course_js []) cs)) \<subseteq>
     range CourseContributionField"
  by (induction cs) (auto simp: check_course_js_def)


lemma issue_fields_js:
  "RevenueField \<in> ValidationIssue_js.field ` set (issues_js s cs) \<longleftrightarrow>
     js_gt (Math_abs (js_sub (sumRevenue_js cs) (ToNumber (CompanySettlement_js.revenue s)))) (Fin 2)"
  "AdCostField \<in> ValidationIssue_js.field ` set (issues_js s cs) \<longleftrightarrow>
     js_gt (Math_abs (js_sub (sumAdCost_js cs) (ToNumber (CompanySettlement_js.ad_cost s)))) (Fin 2)"
  "ContributionField \<in> ValidationIssue_js.field ` set (issues_js s cs) \<longleftrightarrow>
     js_gt (Math_abs (js_sub (sumContribution_js cs) (ToNumber (CompanySettlement_js.contribution s))))
        (Fin 2)"
  using course_fields_js [of cs]
  by (auto simp: issues_js_append check_revenue_js_def check_ad_cost_js_def
      check_contribution_js_def check_formula_js_def check_settlement_js_def threshold_js_def)

lemma whole_difference:
  assumes col: "whole_column g cs" and tot: "whole_val t"
    and size: "column_size g cs + \<bar>amount t\<bar> \<le> 2 ^ 53"
  shows "js_gt (Math_abs (js_sub (foldl (\<lambda>s c. js_add s (nullish (g c) (Fin 0))) (Fin 0) cs) (ToNumber t)))
            (Fin 2) \<longleftrightarrow> 2 < \<bar>column_sum g cs - amount t\<bar>"
proof -
  have "column_size g cs \<le> 2 ^ 53" using size by simp
  then have sum: "foldl (\<lambda>s c. js_add s (nullish (g c) (Fin 0))) (Fin 0) cs = Fin (column_sum g cs)"
    using col by (intro column_nullish)
  have "\<bar>column_sum g cs - amount t\<bar> \<le> column_size g cs + \<bar>amount t\<bar>"
    using column_sum_le_size [of g cs] by simp
  then have "\<bar>column_sum g cs - amount t\<bar> \<le> 2 ^ 53" using size by simp
  then have "js_sub (Fin (column_sum g cs)) (Fin (amount t)) = Fin (column_sum g cs - amount t)"
    using column_sum_Ints [OF col] whole_val_simps(3) [OF tot] by (intro sub_whole)
  then show ?thesis
    by (simp add: sum whole_val_simps(1) [OF tot] Math_abs_def js_gt_def)
qed

section \<open>The tolerance of the sum checks\<close>

text \<open>
  Claim C5, as the specification states it: a revenue issue is produced if and only if
  the absolute difference between the sum of the per-course revenues and the total is
  strictly greater than 2, and a difference of exactly 2 produces no issue. The code
  adds and subtracts doubles. For revenues 0.25 and 3.81 and a total of 2.06 (the
  doubles nearest to these) the exact difference is 2, but the computed sum is
  4.0600000000000005 and the computed difference 2.0000000000000004, so the revenue
  issue is produced, and the contribution issue with it. For revenues \<open>2^53\<close>, 1, 1 and
  1 and a total of \<open>2^53\<close> the exact difference is 3, but every addition of 1 rounds
  back to \<open>2^53\<close>, so no issue is produced.
\<close>

theorem exact_difference_two_counterexample:
  "column_sum CourseSummary_js.revenue
      [demo_course_js ''a'' (1 / 4) 0 (1 / 4),
       demo_course_js ''b'' (8579357290140795 / 2 ^ 51) 0 (8579357290140795 / 2 ^ 51)]
     - amount (won (4638707616191611 / 2 ^ 51)) = 2 \<and>
   map_sum id (map ValidationIssue_js.field) (validateSettlement_js
      (demo_company_js (4638707616191611 / 2 ^ 51) 0 (4638707616191611 / 2 ^ 51) 0 0
         (Some [demo_course_js ''a'' (1 / 4) 0 (1 / 4),
                demo_course_js ''b'' (8579357290140795 / 2 ^ 51) 0 (8579357290140795 / 2 ^ 51)])))
     = Inr [RevenueField, ContributionField] \<and>
   column_sum CourseSummary_js.revenue
      [demo_course_js ''a'' (2 ^ 53) 0 (2 ^ 53), demo_course_js ''b'' 1 0 1,
       demo_course_js ''c'' 1 0 1, demo_course_js ''d'' 1 0 1]
     - amount (won (2 ^ 53)) = 3 \<and>
   validateSettlement_js
      (demo_company_js (2 ^ 53) 0 (2 ^ 53) 0 0
         (Some [demo_course_js ''a'' (2 ^ 53) 0 (2 ^ 53), demo_course_js ''b'' 1 0 1,
                demo_course_js ''c'' 1 0 1, demo_course_js ''d'' 1 0 1]))
     = Inr []"
  by (simp add: demo_js validateSettlement_js_def validator_js js_eval)

text \<open>
  Claim C5, amended. For every settlement that carries its courses, a revenue issue is
  produced if and only if the absolute difference between the sum of the per-course
  revenues and the total revenue, both computed in double precision in course order, is
  strictly greater than 2, and likewise for the cost and margin sum checks. When the
  course amounts and the total are whole numbers whose magnitudes add up to at most
  \<open>2^53\<close>, as amounts of won do, the computed difference is the exact one: the issue
  is produced if and only if the exact absolute difference is strictly greater than 2,
  so a difference of exactly 2 produces no issue.
\<close>

theorem sum_checks_tolerance_js:
  assumes "CompanySettlement_js.courses s = Some cs"
  shows "validateSettlement_js s = Inr (issues_js s cs) \<and>
   (RevenueField \<in> ValidationIssue_js.field ` set (issues_js s cs) \<longleftrightarrow>
      js_gt (Math_abs (js_sub (sumRevenue_js cs) (ToNumber (CompanySettlement_js.revenue s)))) (Fin 2)) \<and>
   (AdCostField \<in> ValidationIssue_js.field ` set (issues_js s cs) \<longleftrightarrow>
      js_gt (Math_abs (js_sub (sumAdCost_js cs) (ToNumber (CompanySettlement_js.ad_cost s)))) (Fin 2)) \<and>
   (ContributionField \<in> ValidationIssue_js.field ` set (issues_js s cs) \<longleftrightarrow>
      js_gt (Math_abs (js_sub (sumContribution_js cs) (ToNumber (CompanySettlement_js.contribution s))))
         (Fin 2)) \<and>
   (whole_column CourseSummary_js.revenue cs \<and> whole_val (CompanySettlement_js.revenue s) \<and>
    column_size CourseSummary_js.revenue cs + \<bar>amount (CompanySettlement_js.revenue s)\<bar> \<le> 2 ^ 53 \<longrightarrow>
      (RevenueField \<in> ValidationIssue_js.field ` set (issues_js s cs) \<longleftrightarrow>
         2 < \<bar>column_sum CourseSummary_js.revenue cs - amount (CompanySettlement_js.revenue s)\<bar>)) \<and>
   (whole_column CourseSummary_js.ad_cost cs \<and> whole_val (CompanySettlement_js.ad_cost s) \<and>
    column_size CourseSummary_js.ad_cost cs + \<bar>amount (CompanySettlement_js.ad_cost s)\<bar> \<le> 2 ^ 53 \<longrightarrow>
      (AdCostField \<in> ValidationIssue_js.field ` set (issues_js s cs) \<longleftrightarrow>
         2 < \<bar>column_sum CourseSummary_js.ad_cost cs - amount (CompanySettlement_js.ad_cost s)\<bar>)) \<and>
   (whole_column CourseSummary_js.contribution cs \<and>
    whole_val (CompanySettlement_js.contribution s) \<and>
    column_size CourseSummary_js.contribution cs + \<bar>amount (CompanySettlement_js.contribution s)\<bar>
      \<le> 2 ^ 53 \<longrightarrow>
      (ContributionField \<in> ValidationIssue_js.field ` set (issues_js s cs) \<longleftrightarrow>
         2 < \<bar>column_sum CourseSummary_js.contribution cs -
               amount (CompanySettlement_js.contribution s)\<bar>))"
proof (intro conjI impI)
  show "validateSettlement_js s = Inr (issues_js s cs)"
    using assms by (simp add: validateSettlement_js_def)
  show "RevenueField \<in> ValidationIssue_js.field ` set (issues_js s cs) \<longleftrightarrow>
      js_gt (Math_abs (js_sub (sumRevenue_js cs) (ToNumber (CompanySettlement_js.revenue s)))) (Fin 2)"
    by (rule issue_fields_js)
  show "AdCostField \<in> ValidationIssue_js.field ` set (issues_js s cs) \<longleftrightarrow>
      js_gt (Math_abs (js_sub (sumAdCost_js cs) (ToNumber (CompanySettlement_js.ad_cost s)))) (Fin 2)"
    by (rule issue_fields_js)
  show "ContributionField \<in> ValidationIssue_js.field ` set (issues_js s cs) \<longleftrightarrow>
      js_gt (Math_abs (js_sub (sumContribution_js cs) (ToNumber (CompanySettlement_js.contribution s))))
         (Fin 2)"
    by (rule issue_fields_js)
next
  assume "whole_column CourseSummary_js.revenue cs \<and> whole_val (CompanySettlement_js.revenue s) \<and>
    column_size CourseSummary_js.revenue cs + \<bar>amount (CompanySettlement_js.revenue s)\<bar> \<le> 2 ^ 53"
  then show "RevenueField \<in> ValidationIssue_js.field ` set (issues_js s cs) \<longleftrightarrow>
         2 < \<bar>column_sum CourseSummary_js.revenue cs - amount (CompanySettlement_js.revenue s)\<bar>"
    using whole_difference [of CourseSummary_js.revenue cs "CompanySettlement_js.revenue s"]
    by (simp add: issue_fields_js sumRevenue_js_def)
next
  assume "whole_column CourseSummary_js.ad_cost cs \<and> whole_val (CompanySettlement_js.ad_cost s) \<and>
    column_size CourseSummary_js.ad_cost cs + \<bar>amount (CompanySettlement_js.ad_cost s)\<bar> \<le> 2 ^ 53"
  then show "AdCostField \<in> ValidationIssue_js.field ` set (issues_js s cs) \<longleftrightarrow>
         2 < \<bar>column_sum CourseSummary_js.ad_cost cs - amount (CompanySettlement_js.ad_cost s)\<bar>"
    using whole_difference [of CourseSummary_js.ad_cost cs "CompanySettlement_js.ad_cost s"]
    by (simp add: issue_fields_js sumAdCost_js_def)
next
  assume "whole_column CourseSummary_js.contribution cs \<and>
    whole_val (CompanySettlement_js.contribution s) \<and>
    column_size CourseSummary_js.contribution cs + \<bar>amount (CompanySettlement_js.contribution s)\<bar>
      \<le> 2 ^ 53"
  then show "ContributionField \<in> ValidationIssue_js.field ` set (issues_js s cs) \<longleftrightarrow>
         2 < \<bar>column_sum CourseSummary_js.contribution cs -
               amount (CompanySettlement_js.contribution s)\<bar>"
    using whole_difference [of CourseSummary_js.contribution cs "CompanySettlement_js.contribution s"]
    by (simp add: issue_fields_js sumContribution_js_def)
qed

text \<open>
  Whole amounts: totals off by exactly 2 in all three sums raise none of the three
  issues; a revenue total off by 3 raises the revenue issue.
\<close>

theorem sum_checks_tolerance_js_witness:
  "RevenueField \<notin> ValidationIssue_js.field ` set (issues_js
      (demo_company_js 12 8 2 1 (1 / 2) (Some [demo_course_js ''a'' 10 10 0]))
      [demo_course_js ''a'' 10 10 0]) \<and>
   AdCostField \<notin> ValidationIssue_js.field ` set (issues_js
      (demo_company_js 12 8 2 1 (1 / 2) (Some [demo_course_js ''a'' 10 10 0]))
      [demo_course_js ''a'' 10 10 0]) \<and>
   ContributionField \<notin> ValidationIssue_js.field ` set (issues_js
      (demo_company_js 12 8 2 1 (1 / 2) (Some [demo_course_js ''a'' 10 10 0]))
      [demo_course_js ''a'' 10 10 0]) \<and>
   RevenueField \<in> ValidationIssue_js.field ` set (issues_js
      (demo_company_js 13 7 3 2 (1 / 2) (Some [demo_course_js ''a'' 10 10 0]))
      [demo_course_js ''a'' 10 10 0])"
  using sum_checks_tolerance_js [of "demo_company_js 12 8 2 1 (1 / 2) (Some [demo_course_js ''a'' 10 10 0])"
      "[demo_course_js ''a'' 10 10 0]"]
    sum_checks_tolerance_js [of "demo_company_js 13 7 3 2 (1 / 2) (Some [demo_course_js ''a'' 10 10 0])"
      "[demo_course_js ''a'' 10 10 0]"]
  by (simp add: demo_js sumRevenue_js_def sumAdCost_js_def sumContribution_js_def js_eval)

section \<open>Conservation\<close>

lemma edit_course_js_consistent: "consistent_js (edit_course_js fld v c)"
  by (cases fld) (simp_all add: edit_course_js_def consistent_js_def)

lemma updatedSettlement_js_simps:
  "CompanySettlement_js.revenue (updatedSettlement_js s ec) = Number (newRevenue_js ec)"
  "CompanySettlement_js.ad_cost (updatedSettlement_js s ec) = Number (newAdCost_js ec)"
  "CompanySettlement_js.contribution (updatedSettlement_js s ec) = Number (newContribution_js ec)"
  "CompanySettlement_js.settlement_amount (updatedSettlement_js s ec) =
     Number (Math_round_js (js_mul (newContribution_js ec)
       (ToNumber (CompanySettlement_js.union_payout_ratio s))))"
  "CompanySettlement_js.courses (updatedSettlement_js s ec) =
     Some (updatedCourses_js (CompanySettlement_js.union_payout_ratio s) ec)"
  "CompanySettlement_js.revenue_share (updatedSettlement_js s ec) =
     Number (foldl (\<lambda>s c. js_add s (ToNumber (CourseSummary_js.revenue_share c))) (Fin 0)
       (updatedCourses_js (CompanySettlement_js.union_payout_ratio s) ec))"
  by (simp_all add: updatedSettlement_js_def Let_def newSettlementAmount_js_def)

lemma consistent_whole:
  assumes c: "consistent_js c"
    and r: "whole_val (CourseSummary_js.revenue c)" and a: "whole_val (CourseSummary_js.ad_cost c)"
    and size: "\<bar>amount (CourseSummary_js.revenue c)\<bar> + \<bar>amount (CourseSummary_js.ad_cost c)\<bar> \<le> 2 ^ 53"
  shows "CourseSummary_js.contribution c =
           Number (Fin (amount (CourseSummary_js.revenue c) - amount (CourseSummary_js.ad_cost c)))"
proof -
  have "\<bar>amount (CourseSummary_js.revenue c) - amount (CourseSummary_js.ad_cost c)\<bar> \<le> 2 ^ 53"
    using size by simp
  then have "js_sub (Fin (amount (CourseSummary_js.revenue c))) (Fin (amount (CourseSummary_js.ad_cost c))) =
      Fin (amount (CourseSummary_js.revenue c) - amount (CourseSummary_js.ad_cost c))"
    using whole_val_simps(3) [OF r] whole_val_simps(3) [OF a] by (intro sub_whole)
  then show ?thesis
    using c by (simp add: consistent_js_def whole_val_simps(1) [OF r] whole_val_simps(1) [OF a])
qed

lemma contributions_whole:
  assumes "list_all consistent_js ec"
    and "whole_column CourseSummary_js.revenue ec" and "whole_column CourseSummary_js.ad_cost ec"
    and "column_size CourseSummary_js.revenue ec + column_size CourseSummary_js.ad_cost ec \<le> 2 ^ 53"
  shows "whole_column CourseSummary_js.contribution ec \<and>
         column_size CourseSummary_js.contribution ec
           \<le> column_size CourseSummary_js.revenue ec + column_size CourseSummary_js.ad_cost ec \<and>
         column_sum CourseSummary_js.contribution ec =
           column_sum CourseSummary_js.revenue ec - column_sum CourseSummary_js.ad_cost ec"
  using assms
proof (induction ec)
  case Nil
  show ?case by (simp add: whole_column_def column_size_def column_sum_def)
next
  case (Cons c ec)
  have nn: "0 \<le> column_size CourseSummary_js.revenue ec" "0 \<le> column_size CourseSummary_js.ad_cost ec"
    unfolding column_size_def by (auto intro!: sum_list_nonneg)
  from Cons.prems have c: "consistent_js c"
    and r: "whole_val (CourseSummary_js.revenue c)" and a: "whole_val (CourseSummary_js.ad_cost c)"
    by (simp_all add: whole_column_def)
  from Cons.prems(4) nn
  have size: "\<bar>amount (CourseSummary_js.revenue c)\<bar> + \<bar>amount (CourseSummary_js.ad_cost c)\<bar> \<le> 2 ^ 53"
    and rest: "column_size CourseSummary_js.revenue ec + column_size CourseSummary_js.ad_cost ec \<le> 2 ^ 53"
    by (simp_all add: column_size_def)
  have k: "CourseSummary_js.contribution c =
      Number (Fin (amount (CourseSummary_js.revenue c) - amount (CourseSummary_js.ad_cost c)))"
    using c r a size by (rule consistent_whole)
  have ki: "amount (CourseSummary_js.revenue c) - amount (CourseSummary_js.ad_cost c) \<in> \<int>"
    using whole_val_simps(3) [OF r] whole_val_simps(3) [OF a] by simp
  then have kw: "whole_val (CourseSummary_js.contribution c)"
    unfolding k whole_val_def by (auto elim!: Ints_cases)
  have ka: "amount (CourseSummary_js.contribution c) =
      amount (CourseSummary_js.revenue c) - amount (CourseSummary_js.ad_cost c)"
    by (simp add: k amount_def)
  have IH: "whole_column CourseSummary_js.contribution ec \<and>
         column_size CourseSummary_js.contribution ec
           \<le> column_size CourseSummary_js.revenue ec + column_size CourseSummary_js.ad_cost ec \<and>
         column_sum CourseSummary_js.contribution ec =
           column_sum CourseSummary_js.revenue ec - column_sum CourseSummary_js.ad_cost ec"
    using Cons.prems(1,2,3) rest by (intro Cons.IH) (simp_all add: whole_column_def)
  have tri: "\<bar>amount (CourseSummary_js.contribution c)\<bar>
      \<le> \<bar>amount (CourseSummary_js.revenue c)\<bar> + \<bar>amount (CourseSummary_js.ad_cost c)\<bar>"
    unfolding ka by simp
  have "whole_column CourseSummary_js.contribution (c # ec)"
    using IH kw by (simp add: whole_column_def)
  moreover have "column_size CourseSummary_js.contribution (c # ec)
      \<le> column_size CourseSummary_js.revenue (c # ec) + column_size CourseSummary_js.ad_cost (c # ec)"
    using IH tri by (simp add: column_size_def)
  moreover have "column_sum CourseSummary_js.contribution (c # ec) =
      column_sum CourseSummary_js.revenue (c # ec) - column_sum CourseSummary_js.ad_cost (c # ec)"
    using IH ka by (simp add: column_sum_def)
  ultimately show ?case by simp
qed

text \<open>
  Claim C6, as the specification states it: after recomputation from per-course entries,
  each course's contribution being its revenue minus its cost, the total contribution
  margin equals the sum of the revenues minus the sum of the costs exactly, for every
  list of course entries. With fractional amounts the double sums differ: for two
  courses with revenue 1 and costs 0.1 and 0.2 the edits store the margins 0.9 and 0.8,
  the recomputed margin is 1.7000000000000002, the recomputed revenue minus the
  recomputed cost is 1.7, and the exact sum of the revenues minus the exact sum of the
  costs is neither.
\<close>

theorem conservation_fractional_counterexample:
  "handleEditCourse_js 0 AdCost (Fin (3602879701896397 / 2 ^ 55))
      [demo_course_js ''a'' 1 0 1,
       demo_course_js ''b'' 1 (3602879701896397 / 2 ^ 54) (3602879701896397 / 2 ^ 52)]
     = Some [demo_course_js ''a'' 1 (3602879701896397 / 2 ^ 55) (8106479329266893 / 2 ^ 53),
             demo_course_js ''b'' 1 (3602879701896397 / 2 ^ 54) (3602879701896397 / 2 ^ 52)] \<and>
   list_all consistent_js
      [demo_course_js ''a'' 1 (3602879701896397 / 2 ^ 55) (8106479329266893 / 2 ^ 53),
       demo_course_js ''b'' 1 (3602879701896397 / 2 ^ 54) (3602879701896397 / 2 ^ 52)] \<and>
   CompanySettlement_js.contribution (updatedSettlement_js (demo_company_js 0 0 0 0 (1 / 2) None)
      [demo_course_js ''a'' 1 (3602879701896397 / 2 ^ 55) (8106479329266893 / 2 ^ 53),
       demo_course_js ''b'' 1 (3602879701896397 / 2 ^ 54) (3602879701896397 / 2 ^ 52)])
     = won (1914029841632461 / 2 ^ 50) \<and>
   js_sub (newRevenue_js
      [demo_course_js ''a'' 1 (3602879701896397 / 2 ^ 55) (8106479329266893 / 2 ^ 53),
       demo_course_js ''b'' 1 (3602879701896397 / 2 ^ 54) (3602879701896397 / 2 ^ 52)])
     (newAdCost_js
      [demo_course_js ''a'' 1 (3602879701896397 / 2 ^ 55) (8106479329266893 / 2 ^ 53),
       demo_course_js ''b'' 1 (3602879701896397 / 2 ^ 54) (3602879701896397 / 2 ^ 52)])
     = Fin (7656119366529843 / 2 ^ 52) \<and>
   column_sum CourseSummary_js.revenue
      [demo_course_js ''a'' 1 (3602879701896397 / 2 ^ 55) (8106479329266893 / 2 ^ 53),
       demo_course_js ''b'' 1 (3602879701896397 / 2 ^ 54) (3602879701896397 / 2 ^ 52)]
     - column_sum CourseSummary_js.ad_cost
      [demo_course_js ''a'' 1 (3602879701896397 / 2 ^ 55) (8106479329266893 / 2 ^ 53),
       demo_course_js ''b'' 1 (3602879701896397 / 2 ^ 54) (3602879701896397 / 2 ^ 52)]
     = 61248954932238745 / 2 ^ 55"
  by (simp add: demo_js apply_js js_eval)

text \<open>
  Claim C6, amended. An edit sets the edited course's contribution to the double
  difference of its revenue and its cost. When every course is consistent in this way
  and the revenues and costs are whole numbers whose magnitudes add up to at most
  \<open>2^53\<close>, as amounts of won do, conservation holds exactly, with no tolerance: the
  recomputed revenue and cost are the exact sums of the course revenues and costs, and
  the recomputed contribution margin is exactly the sum of the revenues minus the sum
  of the costs.
\<close>

theorem conservation_whole_amounts:
  "(handleEditCourse_js idx fld v prev = Some ec \<longrightarrow> consistent_js (ec ! idx)) \<and>
   (list_all consistent_js ec \<and>
    whole_column CourseSummary_js.revenue ec \<and> whole_column CourseSummary_js.ad_cost ec \<and>
    column_size CourseSummary_js.revenue ec + column_size CourseSummary_js.ad_cost ec \<le> 2 ^ 53 \<longrightarrow>
      CompanySettlement_js.revenue (updatedSettlement_js s ec) =
        Number (Fin (column_sum CourseSummary_js.revenue ec)) \<and>
      CompanySettlement_js.ad_cost (updatedSettlement_js s ec) =
        Number (Fin (column_sum CourseSummary_js.ad_cost ec)) \<and>
      CompanySettlement_js.contribution (updatedSettlement_js s ec) =
        Number (Fin (column_sum CourseSummary_js.revenue ec - column_sum CourseSummary_js.ad_cost ec)))"
proof (intro conjI impI)
  assume "handleEditCourse_js idx fld v prev = Some ec"
  then have "idx < length prev" and "ec = prev[idx := edit_course_js fld v (prev ! idx)]"
    by (auto simp: handleEditCourse_js_def split: if_splits)
  then show "consistent_js (ec ! idx)"
    by (simp add: edit_course_js_consistent)
next
  assume h: "list_all consistent_js ec \<and>
    whole_column CourseSummary_js.revenue ec \<and> whole_column CourseSummary_js.ad_cost ec \<and>
    column_size CourseSummary_js.revenue ec + column_size CourseSummary_js.ad_cost ec \<le> 2 ^ 53"
  have nn: "0 \<le> column_size CourseSummary_js.revenue ec" "0 \<le> column_size CourseSummary_js.ad_cost ec"
    unfolding column_size_def by (auto intro!: sum_list_nonneg)
  from h nn have rs: "column_size CourseSummary_js.revenue ec \<le> 2 ^ 53"
    and cs: "column_size CourseSummary_js.ad_cost ec \<le> 2 ^ 53"
    by simp_all
  from h have k: "whole_column CourseSummary_js.contribution ec"
    and ks: "column_size CourseSummary_js.contribution ec \<le> 2 ^ 53"
    and ksum: "column_sum CourseSummary_js.contribution ec =
           column_sum CourseSummary_js.revenue ec - column_sum CourseSummary_js.ad_cost ec"
    using contributions_whole [of ec] by simp_all
  show "CompanySettlement_js.revenue (updatedSettlement_js s ec) =
        Number (Fin (column_sum CourseSummary_js.revenue ec))"
    using h rs by (simp add: updatedSettlement_js_simps newRevenue_js_def column_ToNumber)
  show "CompanySettlement_js.ad_cost (updatedSettlement_js s ec) =
        Number (Fin (column_sum CourseSummary_js.ad_cost ec))"
    using h cs by (simp add: updatedSettlement_js_simps newAdCost_js_def column_ToNumber)
  show "CompanySettlement_js.contribution (updatedSettlement_js s ec) =
        Number (Fin (column_sum CourseSummary_js.revenue ec - column_sum CourseSummary_js.ad_cost ec))"
    using k ks by (simp add: updatedSettlement_js_simps newContribution_js_def column_ToNumber ksum)
qed

text \<open>
  Editing the revenue of the second course, whose stored margin was not revenue minus
  cost, makes the list consistent; the recomputed margin is 1300 - 200.
\<close>

theorem conservation_whole_amounts_witness:
  "handleEditCourse_js 1 Revenue (Fin 700)
      [demo_course_js ''a'' 600 150 450, demo_course_js ''b'' 400 50 999]
     = Some [demo_course_js ''a'' 600 150 450, demo_course_js ''b'' 700 50 650] \<and>
   CompanySettlement_js.contribution (updatedSettlement_js (demo_company_js 0 0 0 0 (1 / 2) None)
      [demo_course_js ''a'' 600 150 450, demo_course_js ''b'' 700 50 650]) = won (1300 - 200)"
  using conservation_whole_amounts [of 1 Revenue "Fin 700"
      "[demo_course_js ''a'' 600 150 450, demo_course_js ''b'' 400 50 999]"
      "[demo_course_js ''a'' 600 150 450, demo_course_js ''b'' 700 50 650]"
      "demo_company_js 0 0 0 0 (1 / 2) None"]
  by (simp add: demo_js handleEditCourse_js_def edit_course_js_def consistent_js_def js_eval)

section \<open>Rounding\<close>

lemma newContribution_js_map:
  "newContribution_js ec =
     foldl (\<lambda>s v. js_add s (ToNumber v)) (Fin 0) (map CourseSummary_js.contribution ec)"
  by (simp add: newContribution_js_def foldl_map)

lemma foldl_revenue_share_js:
  "foldl (\<lambda>s c. js_add s (ToNumber (CourseSummary_js.revenue_share c))) a (updatedCourses_js r ec) =
   foldl (\<lambda>s c. js_add s (Math_round_js (js_mul (ToNumber (CourseSummary_js.contribution c)) (ToNumber r))))
     a ec"
  by (simp add: updatedCourses_js_def foldl_map)

text \<open>
  Claim C2, as the specification states it: the amount is rounded half-to-even. For one
  course with a margin of 5 and a ratio of 1/2 the product is 2.5: round-half-to-even
  gives 2, the recomputed settlement amount and the validator's expected amount are 3.
\<close>

theorem banker_rounding_counterexample:
  "CompanySettlement_js.settlement_amount
      (updatedSettlement_js (demo_company_js 5 0 5 2 (1 / 2) None) [demo_course_js ''a'' 5 0 5])
     = won 3 \<and>
   js_mul (newContribution_js [demo_course_js ''a'' 5 0 5])
       (ToNumber (CompanySettlement_js.union_payout_ratio (demo_company_js 5 0 5 2 (1 / 2) None)))
     = Fin (5 / 2) \<and>
   round_half_even (5 / 2) = 2 \<and>
   expectedSettlement_js (demo_company_js 5 0 5 2 (1 / 2) None) = Fin 3"
  by (simp add: demo_js apply_js expectedSettlement_js_def js_eval)

text \<open>
  Claim C2, amended. The settlement amount is rounded to whole won by \<open>Math.round\<close>, to
  the nearest integer with a tie going up, so it is the round-half-to-even value except
  at a tie; the rounding is applied once, to the double-precision product of the sum of
  the unrounded course contributions with the payout ratio, and the amount depends on
  the courses through their contributions only. The code does round every per-course
  share as well: each stored course gets \<open>Math.round\<close> of its own contribution times the
  ratio as its revenue share, and the company's revenue share is the sum of these
  rounded shares; the settlement amount is not computed from them.
\<close>

theorem settlement_amount_rounding:
  "CompanySettlement_js.settlement_amount (updatedSettlement_js s ec) =
     Number (Math_round_js (js_mul (newContribution_js ec)
       (ToNumber (CompanySettlement_js.union_payout_ratio s)))) \<and>
   (js_mul (newContribution_js ec) (ToNumber (CompanySettlement_js.union_payout_ratio s)) = Fin p \<longrightarrow>
      CompanySettlement_js.settlement_amount (updatedSettlement_js s ec) =
        Number (Fin (of_int \<lfloor>p + 1 / 2\<rfloor>)) \<and>
      p - 1 / 2 < of_int \<lfloor>p + 1 / 2\<rfloor> \<and> of_int \<lfloor>p + 1 / 2\<rfloor> \<le> p + 1 / 2 \<and>
      (p - of_int \<lfloor>p\<rfloor> = 1 / 2 \<longrightarrow> of_int \<lfloor>p + 1 / 2\<rfloor> = p + 1 / 2) \<and>
      (p - of_int \<lfloor>p\<rfloor> \<noteq> 1 / 2 \<longrightarrow> \<lfloor>p + 1 / 2\<rfloor> = round_half_even p)) \<and>
   (map CourseSummary_js.contribution ec = map CourseSummary_js.contribution ec' \<longrightarrow>
      CompanySettlement_js.settlement_amount (updatedSettlement_js s ec) =
        CompanySettlement_js.settlement_amount (updatedSettlement_js s ec')) \<and>
   CompanySettlement_js.courses (updatedSettlement_js s ec) =
     Some (updatedCourses_js (CompanySettlement_js.union_payout_ratio s) ec) \<and>
   map CourseSummary_js.revenue_share
       (updatedCourses_js (CompanySettlement_js.union_payout_ratio s) ec) =
     map (\<lambda>c. Number (Math_round_js (js_mul (ToNumber (CourseSummary_js.contribution c))
            (ToNumber (CompanySettlement_js.union_payout_ratio s))))) ec \<and>
   CompanySettlement_js.revenue_share (updatedSettlement_js s ec) =
     Number (foldl (\<lambda>a c. js_add a (Math_round_js (js_mul (ToNumber (CourseSummary_js.contribution c))
                (ToNumber (CompanySettlement_js.union_payout_ratio s))))) (Fin 0) ec)"
proof (intro conjI impI)
  show "CompanySettlement_js.settlement_amount (updatedSettlement_js s ec) =
     Number (Math_round_js (js_mul (newContribution_js ec)
       (ToNumber (CompanySettlement_js.union_payout_ratio s))))"
    by (simp add: updatedSettlement_js_simps)
  show "CompanySettlement_js.courses (updatedSettlement_js s ec) =
     Some (updatedCourses_js (CompanySettlement_js.union_payout_ratio s) ec)"
    by (simp add: updatedSettlement_js_simps)
  show "map CourseSummary_js.revenue_share
       (updatedCourses_js (CompanySettlement_js.union_payout_ratio s) ec) =
     map (\<lambda>c. Number (Math_round_js (js_mul (ToNumber (CourseSummary_js.contribution c))
            (ToNumber (CompanySettlement_js.union_payout_ratio s))))) ec"
    by (simp add: updatedCourses_js_def comp_def)
  show "CompanySettlement_js.revenue_share (updatedSettlement_js s ec) =
     Number (foldl (\<lambda>a c. js_add a (Math_round_js (js_mul (ToNumber (CourseSummary_js.contribution c))
                (ToNumber (CompanySettlement_js.union_payout_ratio s))))) (Fin 0) ec)"
    by (simp add: updatedSettlement_js_simps foldl_revenue_share_js)
next
  assume "map CourseSummary_js.contribution ec = map CourseSummary_js.contribution ec'"
  then have "newContribution_js ec = newContribution_js ec'"
    by (simp add: newContribution_js_map)
  then show "CompanySettlement_js.settlement_amount (updatedSettlement_js s ec) =
        CompanySettlement_js.settlement_amount (updatedSettlement_js s ec')"
    by (simp add: updatedSettlement_js_simps)
next
  assume p: "js_mul (newContribution_js ec) (ToNumber (CompanySettlement_js.union_payout_ratio s)) = Fin p"
  show "CompanySettlement_js.settlement_amount (updatedSettlement_js s ec) =
        Number (Fin (of_int \<lfloor>p + 1 / 2\<rfloor>))"
    by (simp add: updatedSettlement_js_simps p Math_round_js_def Math_round_def)
  show "p - 1 / 2 < of_int \<lfloor>p + 1 / 2\<rfloor>" by linarith
  show "of_int \<lfloor>p + 1 / 2\<rfloor> \<le> p + 1 / 2" by linarith
  show "of_int \<lfloor>p + 1 / 2\<rfloor> = p + 1 / 2" if "p - of_int \<lfloor>p\<rfloor> = 1 / 2"
    using Math_round_tie [OF that] by (simp add: Math_round_def)
  show "\<lfloor>p + 1 / 2\<rfloor> = round_half_even p" if "p - of_int \<lfloor>p\<rfloor> \<noteq> 1 / 2"
    using that by (simp add: round_half_even_def)
qed

text \<open>
  A margin of 5 at the double nearest to 0.7: the exact product lies below 3.5, the
  double product is 3.5, the amount is 4. Two courses with margin 1 at ratio 1/2: the
  amount is 1, the two rounded shares add up to 2.
\<close>

theorem settlement_amount_rounding_witness:
  "CompanySettlement_js.settlement_amount
      (updatedSettlement_js (demo_company_js 0 0 0 0 (3152519739159347 / 2 ^ 52) None)
         [demo_course_js ''a'' 5 0 5]) = won 4 \<and>
   CompanySettlement_js.settlement_amount
      (updatedSettlement_js (demo_company_js 0 0 0 0 (1 / 2) None)
         [demo_course_js ''a'' 1 0 1, demo_course_js ''b'' 1 0 1]) = won 1 \<and>
   CompanySettlement_js.revenue_share
      (updatedSettlement_js (demo_company_js 0 0 0 0 (1 / 2) None)
         [demo_course_js ''a'' 1 0 1, demo_course_js ''b'' 1 0 1]) = won 2"
  using settlement_amount_rounding [of "demo_company_js 0 0 0 0 (3152519739159347 / 2 ^ 52) None"
      "[demo_course_js ''a'' 5 0 5]" "7 / 2" "[demo_course_js ''a'' 5 0 5]"]
    settlement_amount_rounding [of "demo_company_js 0 0 0 0 (1 / 2) None"
      "[demo_course_js ''a'' 1 0 1, demo_course_js ''b'' 1 0 1]" 1
      "[demo_course_js ''a'' 1 0 1, demo_course_js ''b'' 1 0 1]"]
  by (simp add: demo_js newContribution_js_def js_eval)

section \<open>Validation and the error path\<close>






end
